theory Spec2Isabelle
  imports Complex_Main
begin

section \<open>Python values\<close>

text \<open>
  The module \<^verbatim>\<open>klipper_sdk/generational.py\<close> passes plain Python values around:
  metric values are \<^verbatim>\<open>Union[int, float, str, bool]\<close>, phase results are
  \<^verbatim>\<open>Dict[str, Any]\<close>. They are modelled by one datatype. A string is a list of
  characters; a float is the rational it denotes (only its comparison with a constant
  is ever used); a dict is an association list in insertion order with string keys.
\<close>

datatype pyval =
    PNone
  | PBool bool
  | PInt int
  | PFloat rat
  | PStr string
  | PList "pyval list"
  | PDict "(string \<times> pyval) list"

type_synonym pydict = "(string \<times> pyval) list"

text \<open>Exceptions: the two the module's own code can run into, and whatever a
  collaborator (a phase override, the persistence callback) raises.\<close>

datatype error = TypeError | OSError | Raised string

text \<open>Python truthiness, as \<^verbatim>\<open>not x\<close> and \<^verbatim>\<open>x or y\<close> read a value.\<close>

fun truthy :: "pyval \<Rightarrow> bool" where
  "truthy PNone = False"
| "truthy (PBool b) = b"
| "truthy (PInt i) = (i \<noteq> 0)"
| "truthy (PFloat r) = (r \<noteq> 0)"
| "truthy (PStr s) = (s \<noteq> [])"
| "truthy (PList xs) = (xs \<noteq> [])"
| "truthy (PDict kvs) = (kvs \<noteq> [])"

text \<open>\<^verbatim>\<open>d.get(k)\<close>, \<^verbatim>\<open>d.get(k, default)\<close> and \<^verbatim>\<open>d[k] = v\<close> on an insertion-ordered dict.\<close>

definition dict_get :: "'k \<Rightarrow> ('k \<times> pyval) list \<Rightarrow> pyval" where
  "dict_get k d = (case map_of d k of None \<Rightarrow> PNone | Some v \<Rightarrow> v)"

definition dict_get_default :: "'k \<Rightarrow> 'v \<Rightarrow> ('k \<times> 'v) list \<Rightarrow> 'v" where
  "dict_get_default k dflt d = (case map_of d k of None \<Rightarrow> dflt | Some v \<Rightarrow> v)"

fun dict_set :: "'k \<Rightarrow> 'v \<Rightarrow> ('k \<times> 'v) list \<Rightarrow> ('k \<times> 'v) list" where
  "dict_set k v [] = [(k, v)]"
| "dict_set k v ((k', v') # d) = (if k' = k then (k, v) # d else (k', v') # dict_set k v d)"

text \<open>What a \<^verbatim>\<open>for\<close> loop iterates over: the elements of a list, the characters of a
  string, the keys of a dict; anything else raises \<^verbatim>\<open>TypeError\<close>.\<close>

fun py_iter :: "pyval \<Rightarrow> error + pyval list" where
  "py_iter (PList xs) = Inr xs"
| "py_iter (PStr s) = Inr (map (\<lambda>c. PStr [c]) s)"
| "py_iter (PDict kvs) = Inr (map (\<lambda>kv. PStr (fst kv)) kvs)"
| "py_iter _ = Inl TypeError"

text \<open>\<^verbatim>\<open>x < c\<close> for a float constant \<^verbatim>\<open>c\<close>: numbers (and bools, which are ints)
  compare by value; \<^verbatim>\<open>None\<close>, strings, lists and dicts raise \<^verbatim>\<open>TypeError\<close>.\<close>

fun py_lt_float :: "pyval \<Rightarrow> rat \<Rightarrow> error + bool" where
  "py_lt_float (PBool b) c = Inr ((if b then 1 else 0) < c)"
| "py_lt_float (PInt i) c = Inr (of_int i < c)"
| "py_lt_float (PFloat r) c = Inr (r < c)"
| "py_lt_float _ c = Inl TypeError"

section \<open>Data structures\<close>

datatype GenerationPhase = TEST | ANALYZE | APPLY | ADVANCE | VALIDATE

datatype ComponentStatus = ALPHA | BETA | STABLE | DEPRECATED

fun status_value :: "ComponentStatus \<Rightarrow> string" where
  "status_value ALPHA = ''ALPHA''"
| "status_value BETA = ''BETA''"
| "status_value STABLE = ''STABLE''"
| "status_value DEPRECATED = ''DEPRECATED''"

text \<open>The three dataclasses. Field names that two classes share carry the class as a
  prefix. A metric's \<^verbatim>\<open>timestamp\<close> is the reading of \<^verbatim>\<open>time.time()\<close> taken when it
  is created; a snapshot's is the reading of \<^verbatim>\<open>datetime.now().isoformat()\<close>. Clock
  readings are inputs of the environment, so the operations below take them as
  arguments.\<close>

record GenerationMetric =
  metric_name :: string
  metric_value :: pyval
  metric_timestamp :: rat
  metric_tags :: pydict

record GenerationArtifact =
  artifact_name :: string
  artifact_type :: string
  artifact_path :: string
  hash_sum :: string
  metadata :: pydict

record GenerationSnapshot =
  gen_id :: int
  snapshot_component_name :: string
  timestamp :: string
  status :: ComponentStatus
  metrics :: "GenerationMetric list"
  artifacts :: "(string \<times> GenerationArtifact) list"
  changelog :: pyval
  parent_gen_id :: "int option"

text \<open>\<^verbatim>\<open>json.loads(snapshot.to_json())\<close>: the snapshot as a plain dict, \<^verbatim>\<open>status\<close>
  replaced by its string. On the values of \<^typ>\<open>pyval\<close> the JSON round trip changes
  nothing.\<close>

definition metric_to_dict :: "GenerationMetric \<Rightarrow> pyval" where
  "metric_to_dict m = PDict
     [(''name'', PStr (metric_name m)), (''value'', metric_value m),
      (''timestamp'', PFloat (metric_timestamp m)), (''tags'', PDict (metric_tags m))]"

definition artifact_to_dict :: "GenerationArtifact \<Rightarrow> pyval" where
  "artifact_to_dict a = PDict
     [(''name'', PStr (artifact_name a)), (''artifact_type'', PStr (artifact_type a)),
      (''path'', PStr (artifact_path a)), (''hash_sum'', PStr (hash_sum a)),
      (''metadata'', PDict (metadata a))]"

definition to_json :: "GenerationSnapshot \<Rightarrow> pyval" where
  "to_json s = PDict
     [(''gen_id'', PInt (gen_id s)),
      (''component_name'', PStr (snapshot_component_name s)),
      (''timestamp'', PStr (timestamp s)),
      (''status'', PStr (status_value (status s))),
      (''metrics'', PList (map metric_to_dict (metrics s))),
      (''artifacts'', PDict (map (\<lambda>kv. (fst kv, artifact_to_dict (snd kv))) (artifacts s))),
      (''changelog'', changelog s),
      (''parent_gen_id'', (case parent_gen_id s of None \<Rightarrow> PNone | Some p \<Rightarrow> PInt p))]"

section \<open>GenerationTracker\<close>

text \<open>
  The tracker's attributes. The optional persistence callback is a closure of the
  caller's: its code, and the state \<^typ>\<open>'w\<close> it has captured (the list
  \<^verbatim>\<open>saved_data\<close> of the repository's test, say). Called with the serialised
  snapshot it returns normally (\<open>None\<close>) or raises, and leaves its state changed.
  Logging is not modelled.
\<close>

record 'w GenerationTracker =
  component_name :: string
  current_generation :: int
  history :: "GenerationSnapshot list"
  current_metrics :: "GenerationMetric list"
  current_artifacts :: "(string \<times> GenerationArtifact) list"
  persistence_callback :: "(pyval \<Rightarrow> 'w \<Rightarrow> error option \<times> 'w) option"
  callback_env :: 'w

definition tracker_init ::
  "string \<Rightarrow> (pyval \<Rightarrow> 'w \<Rightarrow> error option \<times> 'w) option \<Rightarrow> 'w \<Rightarrow> 'w GenerationTracker" where
  "tracker_init cname cb env =
     \<lparr>component_name = cname, current_generation = 0, history = [],
      current_metrics = [], current_artifacts = [],
      persistence_callback = cb, callback_env = env\<rparr>"

definition start_next_generation :: "'w GenerationTracker \<Rightarrow> int \<times> 'w GenerationTracker" where
  "start_next_generation tr =
     (let tr' = tr\<lparr>current_generation := current_generation tr + 1,
                    current_metrics := [], current_artifacts := []\<rparr>
      in (current_generation tr', tr'))"

text \<open>\<^verbatim>\<open>tags or {}\<close>: no tags and empty tags both give the empty dict. \<open>ts\<close> is the
  clock reading of the call.\<close>

definition log_metric ::
  "string \<Rightarrow> pyval \<Rightarrow> pydict option \<Rightarrow> rat \<Rightarrow> 'w GenerationTracker \<Rightarrow> 'w GenerationTracker" where
  "log_metric nm v tags ts tr =
     (let metric = \<lparr>metric_name = nm, metric_value = v, metric_timestamp = ts,
                     metric_tags = (case tags of None \<Rightarrow> [] | Some t \<Rightarrow> t)\<rparr>
      in tr\<lparr>current_metrics := current_metrics tr @ [metric]\<rparr>)"

text \<open>\<open>digest\<close> is what the file system answers: the MD5 hex digest of the bytes at
  \<open>path\<close> when it is an existing regular file, nothing otherwise.\<close>

definition register_artifact ::
  "string \<Rightarrow> string \<Rightarrow> string \<Rightarrow> string option \<Rightarrow> 'w GenerationTracker \<Rightarrow> 'w GenerationTracker" where
  "register_artifact nm path type_hint digest tr =
     (let checksum = (case digest of None \<Rightarrow> ''unknown'' | Some h \<Rightarrow> h);
          artifact = \<lparr>artifact_name = nm, artifact_type = type_hint, artifact_path = path,
                       hash_sum = checksum, metadata = []\<rparr>
      in tr\<lparr>current_artifacts := dict_set nm artifact (current_artifacts tr)\<rparr>)"

text \<open>\<open>notes\<close> is \<open>PNone\<close> when the argument is left out; \<open>now\<close> is the clock reading.
  The snapshot is appended before the callback runs, so it stays in the history when
  the callback raises.\<close>

definition finalize_generation ::
  "ComponentStatus \<Rightarrow> pyval \<Rightarrow> string \<Rightarrow> 'w GenerationTracker
     \<Rightarrow> (error + GenerationSnapshot) \<times> 'w GenerationTracker" where
  "finalize_generation st notes now tr =
     (let snapshot =
            \<lparr>gen_id = current_generation tr,
             snapshot_component_name = component_name tr,
             timestamp = now,
             status = st,
             metrics = current_metrics tr,
             artifacts = current_artifacts tr,
             changelog = (if truthy notes then notes else PList []),
             parent_gen_id =
               (if history tr \<noteq> [] then Some (gen_id (last (history tr))) else None)\<rparr>;
          tr1 = tr\<lparr>history := history tr @ [snapshot]\<rparr>
      in case persistence_callback tr1 of
           None \<Rightarrow> (Inr snapshot, tr1)
         | Some cb \<Rightarrow>
             (case cb (to_json snapshot) (callback_env tr1) of
                (None, w) \<Rightarrow> (Inr snapshot, tr1\<lparr>callback_env := w\<rparr>)
              | (Some e, w) \<Rightarrow> (Inl e, tr1\<lparr>callback_env := w\<rparr>)))"

text \<open>The two loops of \<^verbatim>\<open>get_metric_trend\<close>: the inner one appends the first match
  and breaks, the outer one walks the history.\<close>

fun trend_scan ::
  "string \<Rightarrow> int \<Rightarrow> GenerationMetric list \<Rightarrow> (int \<times> pyval) list \<Rightarrow> (int \<times> pyval) list" where
  "trend_scan x g [] trend = trend"
| "trend_scan x g (m # ms) trend =
     (if metric_name m = x then trend @ [(g, metric_value m)] else trend_scan x g ms trend)"

fun trend_loop ::
  "string \<Rightarrow> GenerationSnapshot list \<Rightarrow> (int \<times> pyval) list \<Rightarrow> (int \<times> pyval) list" where
  "trend_loop x [] trend = trend"
| "trend_loop x (snap # snaps) trend =
     trend_loop x snaps (trend_scan x (gen_id snap) (metrics snap) trend)"

definition get_metric_trend :: "string \<Rightarrow> 'w GenerationTracker \<Rightarrow> (int \<times> pyval) list" where
  "get_metric_trend x tr = trend_loop x (history tr) []"

subsection \<open>Sequences of operations\<close>

text \<open>A caller's use of one tracker: the calls it makes, each with its arguments and
  with what the environment answers during the call. A call that raises (a failing
  callback in \<^verbatim>\<open>finalize_generation\<close>) leaves its state behind like any other.\<close>

datatype tracker_op =
    StartNext
  | LogMetric string pyval "pydict option" rat
  | RegisterArtifact string string string "string option"
  | Finalize ComponentStatus pyval string

fun exec_op :: "tracker_op \<Rightarrow> 'w GenerationTracker \<Rightarrow> 'w GenerationTracker" where
  "exec_op StartNext tr = snd (start_next_generation tr)"
| "exec_op (LogMetric nm v tags ts) tr = log_metric nm v tags ts tr"
| "exec_op (RegisterArtifact nm path type_hint digest) tr = register_artifact nm path type_hint digest tr"
| "exec_op (Finalize st notes now) tr = snd (finalize_generation st notes now tr)"

fun run_ops :: "tracker_op list \<Rightarrow> 'w GenerationTracker \<Rightarrow> 'w GenerationTracker" where
  "run_ops [] tr = tr"
| "run_ops (c # cs) tr = run_ops cs (exec_op c tr)"

fun is_start :: "tracker_op \<Rightarrow> bool" where
  "is_start StartNext = True"
| "is_start _ = False"

fun is_finalize :: "tracker_op \<Rightarrow> bool" where
  "is_finalize (Finalize st notes now) = True"
| "is_finalize _ = False"

section \<open>GenerationalBlueprintManager\<close>

text \<open>
  The store keeps each version in a text file. What the code needs from outside is
  gathered in a \<open>host\<close>: the platform, which decides \<^verbatim>\<open>os.linesep\<close>; pathlib's
  \<^verbatim>\<open>storage_root / filename\<close>, as the path string it yields; and for diffing
  \<^verbatim>\<open>str.splitlines\<close> and \<^verbatim>\<open>list(difflib.unified_diff(a, b, fromfile, tofile))\<close>.
\<close>

datatype platform = Posix | Windows

definition LF :: char where
  "LF = CHR 0x0A"

definition CR :: char where
  "CR = CHR 0x0D"

fun linesep :: "platform \<Rightarrow> string" where
  "linesep Posix = [LF]"
| "linesep Windows = [CR, LF]"

record host =
  os_platform :: platform
  path_join :: "string \<Rightarrow> string \<Rightarrow> string"
  splitlines :: "string \<Rightarrow> string list"
  unified_diff :: "string list \<Rightarrow> string list \<Rightarrow> string \<Rightarrow> string \<Rightarrow> string list"

text \<open>
  The file system, as far as the store meets it. At a path there is nothing, or a text
  file with its stored characters, or something whose reading as UTF-8 text raises (a
  directory or a file without read permission raises \<^verbatim>\<open>OSError\<close>, bytes that do not
  decode raise \<^verbatim>\<open>UnicodeDecodeError\<close>); the node carries that exception. Apart from the
  nodes there are the paths at which the existence check \<^verbatim>\<open>Path.exists()\<close> itself raises
  \<^verbatim>\<open>OSError\<close> (a file name longer than the system allows, a parent directory that may
  not be searched), and the paths at which opening a file for writing raises
  \<^verbatim>\<open>OSError\<close> (no parent directory, no permission, a directory at the path, a name the
  system does not take).
\<close>

datatype node = TextFile string | Unreadable error

record filesystem =
  nodes :: "string \<Rightarrow> node option"
  refuses_stat :: "string \<Rightarrow> bool"
  refuses_write :: "string \<Rightarrow> bool"

text \<open>
  Both \<^verbatim>\<open>open(path, "w", encoding="utf-8")\<close> and \<^verbatim>\<open>path.read_text(encoding="utf-8")\<close>
  open the file in text mode with \<^verbatim>\<open>newline=None\<close>. Writing then replaces every
  \<^verbatim>\<open>"\n"\<close> by \<^verbatim>\<open>os.linesep\<close>; reading replaces every \<^verbatim>\<open>"\r\n"\<close> and every other
  \<^verbatim>\<open>"\r"\<close> by \<^verbatim>\<open>"\n"\<close> (universal newlines).
\<close>

definition write_newlines :: "platform \<Rightarrow> string \<Rightarrow> string" where
  "write_newlines pf s = concat (map (\<lambda>c. if c = LF then linesep pf else [c]) s)"

fun universal_newlines :: "string \<Rightarrow> string" where
  "universal_newlines [] = []"
| "universal_newlines [c] = (if c = CR then [LF] else [c])"
| "universal_newlines (c # d # s) =
     (if c = CR then
        (if d = LF then LF # universal_newlines s else LF # universal_newlines (d # s))
      else c # universal_newlines (d # s))"

text \<open>The manager's attributes. Its constructor also creates the storage directory;
  in the file system above a missing directory shows as a refused write.\<close>

record GenerationalBlueprintManager =
  storage_root :: string
  blueprints :: "(string \<times> GenerationSnapshot list) list"

definition blueprint_manager_init :: "string \<Rightarrow> GenerationalBlueprintManager" where
  "blueprint_manager_init dir = \<lparr>storage_root = dir, blueprints = []\<rparr>"

text \<open>The f-string \<^verbatim>\<open>f"{name}_v{version_tag}.kl"\<close> of both \<^verbatim>\<open>save_blueprint\<close> and
  \<^verbatim>\<open>load_blueprint\<close>.\<close>

definition blueprint_filename :: "string \<Rightarrow> string \<Rightarrow> string" where
  "blueprint_filename nm version_tag = nm @ ''_v'' @ version_tag @ ''.kl''"

definition save_blueprint ::
  "host \<Rightarrow> GenerationalBlueprintManager \<Rightarrow> string \<Rightarrow> string \<Rightarrow> string \<Rightarrow> filesystem
     \<Rightarrow> error + (string \<times> filesystem)" where
  "save_blueprint H mgr nm content version_tag fs =
     (let filename = blueprint_filename nm version_tag;
          path = path_join H (storage_root mgr) filename
      in if refuses_write fs path then Inl OSError
         else Inr (path,
                   fs\<lparr>nodes := (nodes fs)(path \<mapsto> TextFile (write_newlines (os_platform H) content))\<rparr>))"

text \<open>\<^verbatim>\<open>load_blueprint\<close>: the existence check, then the read. Either can raise; a
  path with nothing at it gives \<open>None\<close>.\<close>

definition load_blueprint ::
  "host \<Rightarrow> GenerationalBlueprintManager \<Rightarrow> string \<Rightarrow> string \<Rightarrow> filesystem
     \<Rightarrow> error + string option" where
  "load_blueprint H mgr nm version_tag fs =
     (let filename = blueprint_filename nm version_tag;
          path = path_join H (storage_root mgr) filename
      in if refuses_stat fs path then Inl OSError
         else (case nodes fs path of
                 Some (TextFile stored) \<Rightarrow> Inr (Some (universal_newlines stored))
               | Some (Unreadable e) \<Rightarrow> Inl e
               | None \<Rightarrow> Inr None))"

text \<open>\<^verbatim>\<open>diff_blueprints\<close> loads both versions before it looks at either, so an
  exception of either load is its own.\<close>

definition diff_blueprints ::
  "host \<Rightarrow> GenerationalBlueprintManager \<Rightarrow> string \<Rightarrow> string \<Rightarrow> string \<Rightarrow> filesystem
     \<Rightarrow> error + string list" where
  "diff_blueprints H mgr nm v1 v2 fs =
     (case load_blueprint H mgr nm v1 fs of
        Inl e \<Rightarrow> Inl e
      | Inr b1 \<Rightarrow>
          (case load_blueprint H mgr nm v2 fs of
             Inl e \<Rightarrow> Inl e
           | Inr b2 \<Rightarrow>
               if b1 = None \<or> b2 = None then Inr [''Error: One or both versions not found.'']
               else Inr (unified_diff H (splitlines H (the b1)) (splitlines H (the b2))
                           (nm @ '':'' @ v1) (nm @ '':'' @ v2))))"

section \<open>GenerationalImprovementLoop\<close>

text \<open>
  The loop's attributes. \<open>executor\<close> is the placeholder \<^verbatim>\<open>executor_agent\<close>: it stands
  for the collaborators' own state, whatever a phase override reaches besides the
  tracker. A phase takes the loop and returns its result dict, or raises, and leaves
  the loop changed.
\<close>

record ('w, 'x) GenerationalImprovementLoop =
  tracker :: "'w GenerationTracker"
  blueprint_manager :: GenerationalBlueprintManager
  executor :: 'x
  current_phase :: GenerationPhase

type_synonym ('w, 'x) phase_result =
  "(error + pydict) \<times> ('w, 'x) GenerationalImprovementLoop"

definition loop_init ::
  "'w GenerationTracker \<Rightarrow> GenerationalBlueprintManager \<Rightarrow> 'x
     \<Rightarrow> ('w, 'x) GenerationalImprovementLoop" where
  "loop_init tr mgr agent =
     \<lparr>tracker = tr, blueprint_manager = mgr, executor = agent, current_phase = TEST\<rparr>"

text \<open>The four phases a subclass (or a test) overrides: \<^verbatim>\<open>run_full_cycle\<close> calls
  whatever is bound to the method names.\<close>

record ('w, 'x) phases =
  test_fn :: "pydict \<Rightarrow> ('w, 'x) GenerationalImprovementLoop \<Rightarrow> ('w, 'x) phase_result"
  analyze_fn :: "pydict \<Rightarrow> ('w, 'x) GenerationalImprovementLoop \<Rightarrow> ('w, 'x) phase_result"
  apply_fn ::
    "pydict \<Rightarrow> pydict \<Rightarrow> ('w, 'x) GenerationalImprovementLoop \<Rightarrow> ('w, 'x) phase_result"
  validate_fn :: "pydict \<Rightarrow> ('w, 'x) GenerationalImprovementLoop \<Rightarrow> ('w, 'x) phase_result"

definition switch_phase ::
  "GenerationPhase \<Rightarrow> ('w, 'x) GenerationalImprovementLoop \<Rightarrow> ('w, 'x) GenerationalImprovementLoop" where
  "switch_phase phase st = st\<lparr>current_phase := phase\<rparr>"

text \<open>The phases as the class defines them. \<open>ts\<close> is the clock reading of the one
  metric a phase logs. The constants \<^verbatim>\<open>0.88\<close> and \<^verbatim>\<open>0.9\<close> are the rationals
  \<open>22/25\<close> and \<open>9/10\<close>: no float lies between \<open>9/10\<close> and the float nearest to it, so
  the comparison decides the same.\<close>

definition phase_test ::
  "rat \<Rightarrow> pydict \<Rightarrow> ('w, 'x) GenerationalImprovementLoop \<Rightarrow> ('w, 'x) phase_result" where
  "phase_test ts context st =
     (let st1 = switch_phase TEST st;
          st2 = st1\<lparr>tracker := log_metric ''phase_test_duration_ms'' (PInt 120) None ts (tracker st1)\<rparr>
      in (Inr [(''success'', PBool True), (''coverage'', PFloat (22 / 25)), (''failures'', PList [])],
          st2))"

definition phase_analyze ::
  "pydict \<Rightarrow> ('w, 'x) GenerationalImprovementLoop \<Rightarrow> ('w, 'x) phase_result" where
  "phase_analyze test_results st =
     (let st1 = switch_phase ANALYZE st
      in case py_lt_float (dict_get ''coverage'' test_results) (9 / 10) of
           Inl e \<Rightarrow> (Inl e, st1)
         | Inr below \<Rightarrow>
             (let recommendations = (if below then [PStr ''optimize_query_speed''] else [])
              in (Inr [(''recommendations'', PList recommendations), (''priority'', PStr ''HIGH'')],
                  st1)))"

definition phase_apply ::
  "pydict \<Rightarrow> pydict \<Rightarrow> ('w, 'x) GenerationalImprovementLoop \<Rightarrow> ('w, 'x) phase_result" where
  "phase_apply analysis context st =
     (let st1 = switch_phase APPLY st;
          changes_applied = [PStr ''Ran optimizer'']
      in (Inr [(''changes'', PList changes_applied), (''diff_summary'', PStr ''+5 lines, -2 lines'')],
          st1))"

text \<open>The loop of \<^verbatim>\<open>phase_advance\<close>: one \<^verbatim>\<open>applied_change\<close> metric per change.
  \<open>clk i\<close> is the clock reading of the \<open>i\<close>-th call.\<close>

fun log_changes ::
  "(nat \<Rightarrow> rat) \<Rightarrow> nat \<Rightarrow> pyval list \<Rightarrow> 'w GenerationTracker \<Rightarrow> 'w GenerationTracker" where
  "log_changes clk i [] tr = tr"
| "log_changes clk i (change # rest) tr =
     log_changes clk (Suc i) rest
       (log_metric ''applied_change'' (PInt 1) (Some [(''desc'', change)]) (clk i) tr)"

definition phase_advance ::
  "(nat \<Rightarrow> rat) \<Rightarrow> string \<Rightarrow> pydict \<Rightarrow> ('w, 'x) GenerationalImprovementLoop
     \<Rightarrow> ('w, 'x) phase_result" where
  "phase_advance clk now apply_results st =
     (let st1 = switch_phase ADVANCE st;
          (new_id, tr1) = start_next_generation (tracker st1)
      in case py_iter (dict_get_default ''changes'' (PList []) apply_results) of
           Inl e \<Rightarrow> (Inl e, st1\<lparr>tracker := tr1\<rparr>)
         | Inr changes \<Rightarrow>
             (let tr2 = log_changes clk 0 changes tr1
              in case finalize_generation STABLE (dict_get ''changes'' apply_results) now tr2 of
                   (Inl e, tr3) \<Rightarrow> (Inl e, st1\<lparr>tracker := tr3\<rparr>)
                 | (Inr snapshot, tr3) \<Rightarrow>
                     (Inr [(''gen_id'', PInt new_id), (''snapshot_id'', PStr (timestamp snapshot))],
                      st1\<lparr>tracker := tr3\<rparr>)))"

definition phase_validate ::
  "rat \<Rightarrow> pydict \<Rightarrow> ('w, 'x) GenerationalImprovementLoop \<Rightarrow> ('w, 'x) phase_result" where
  "phase_validate ts advance_results st =
     (let st1 = switch_phase VALIDATE st;
          validated = True;
          st2 = st1\<lparr>tracker :=
                  log_metric ''validation_success'' (PInt (if validated then 1 else 0)) None ts
                    (tracker st1)\<rparr>
      in (Inr [(''validated'', PBool validated), (''score'', PInt 100)], st2))"

definition default_phases :: "rat \<Rightarrow> rat \<Rightarrow> ('w, 'x) phases" where
  "default_phases ts_test ts_validate =
     \<lparr>test_fn = phase_test ts_test, analyze_fn = phase_analyze,
      apply_fn = phase_apply, validate_fn = phase_validate ts_validate\<rparr>"

text \<open>\<^verbatim>\<open>run_full_cycle\<close>. An exception of a phase ends the cycle and reaches the caller;
  the loop stays as the phase left it.\<close>

definition run_full_cycle ::
  "('w, 'x) phases \<Rightarrow> (nat \<Rightarrow> rat) \<Rightarrow> string \<Rightarrow> pydict \<Rightarrow> ('w, 'x) GenerationalImprovementLoop
     \<Rightarrow> ('w, 'x) phase_result" where
  "run_full_cycle P clk now context st =
     (case test_fn P context st of
        (Inl e, s1) \<Rightarrow> (Inl e, s1)
      | (Inr test_res, s1) \<Rightarrow>
          (let results1 = dict_set ''test'' (PDict test_res) []
           in if \<not> truthy (dict_get_default ''success'' (PBool False) test_res)
              then (Inr results1, s1)
              else
                (case analyze_fn P test_res s1 of
                   (Inl e, s2) \<Rightarrow> (Inl e, s2)
                 | (Inr analyze_res, s2) \<Rightarrow>
                     (let results2 = dict_set ''analyze'' (PDict analyze_res) results1
                      in case apply_fn P analyze_res context s2 of
                           (Inl e, s3) \<Rightarrow> (Inl e, s3)
                         | (Inr apply_res, s3) \<Rightarrow>
                             (let results3 = dict_set ''apply'' (PDict apply_res) results2
                              in case phase_advance clk now apply_res s3 of
                                   (Inl e, s4) \<Rightarrow> (Inl e, s4)
                                 | (Inr advance_res, s4) \<Rightarrow>
                                     (let results4 = dict_set ''advance'' (PDict advance_res) results3
                                      in case validate_fn P advance_res s4 of
                                           (Inl e, s5) \<Rightarrow> (Inl e, s5)
                                         | (Inr validate_res, s5) \<Rightarrow>
                                             (Inr (dict_set ''validate'' (PDict validate_res) results4),
                                              s5)))))))"

text \<open>A phase override that returns a fixed result and touches nothing, like the
  lambdas of \<^verbatim>\<open>test_improvement_loop_flow\<close>.\<close>

definition fixed_result ::
  "pydict \<Rightarrow> pydict \<Rightarrow> ('w, 'x) GenerationalImprovementLoop \<Rightarrow> ('w, 'x) phase_result" where
  "fixed_result r context st = (Inr r, st)"

section \<open>Notions used in the statements\<close>

text \<open>The snapshot that \<^verbatim>\<open>finalize_generation\<close> builds from a tracker.\<close>

definition sealed_snapshot ::
  "ComponentStatus \<Rightarrow> pyval \<Rightarrow> string \<Rightarrow> 'w GenerationTracker \<Rightarrow> GenerationSnapshot" where
  "sealed_snapshot st notes now tr =
     \<lparr>gen_id = current_generation tr,
      snapshot_component_name = component_name tr,
      timestamp = now,
      status = st,
      metrics = current_metrics tr,
      artifacts = current_artifacts tr,
      changelog = (if truthy notes then notes else PList []),
      parent_gen_id =
        (if history tr \<noteq> [] then Some (gen_id (last (history tr))) else None)\<rparr>"

text \<open>A history is linked when every snapshot names its predecessor's \<open>gen_id\<close> as its
  parent, the first one naming \<open>p\<close>.\<close>

fun parent_linked :: "int option \<Rightarrow> GenerationSnapshot list \<Rightarrow> bool" where
  "parent_linked p [] = True"
| "parent_linked p (s # ss) = (parent_gen_id s = p \<and> parent_linked (Some (gen_id s)) ss)"

text \<open>The caller's discipline under which generations are numbered without gaps: each
  \<^verbatim>\<open>finalize_generation\<close> comes after exactly one \<^verbatim>\<open>start_next_generation\<close> since the
  finalize before it (or since construction). \<open>p\<close> counts the starts since then.\<close>

fun one_start_per_finalize :: "nat \<Rightarrow> tracker_op list \<Rightarrow> bool" where
  "one_start_per_finalize p [] = True"
| "one_start_per_finalize p (StartNext # cs) = one_start_per_finalize (Suc p) cs"
| "one_start_per_finalize p (Finalize st notes now # cs) = (p = 1 \<and> one_start_per_finalize 0 cs)"
| "one_start_per_finalize p (c # cs) = one_start_per_finalize p cs"

text \<open>The trend as the specification words it: per snapshot, in history order, the
  first metric of the given name if there is one, and nothing otherwise.\<close>

definition trend_spec :: "string \<Rightarrow> GenerationSnapshot list \<Rightarrow> (int \<times> pyval) list" where
  "trend_spec x h =
     concat (map (\<lambda>s. case find (\<lambda>m. metric_name m = x) (metrics s) of
                         None \<Rightarrow> []
                       | Some m \<Rightarrow> [(gen_id s, metric_value m)]) h)"

text \<open>No sealed \<open>gen_id\<close> exceeds the counter, and the sealed ones never decrease.\<close>

definition gen_ids_bounded :: "'w GenerationTracker \<Rightarrow> bool" where
  "gen_ids_bounded tr \<longleftrightarrow>
     sorted (map gen_id (history tr)) \<and>
     list_all (\<lambda>s. gen_id s \<le> current_generation tr) (history tr)"

text \<open>One \<^verbatim>\<open>applied_change\<close> metric per change: value \<open>1\<close>, the change under the tag
  \<^verbatim>\<open>desc\<close>, stamped with the clock reading of its call.\<close>

definition applied_change_metrics ::
  "(nat \<Rightarrow> rat) \<Rightarrow> nat \<Rightarrow> pyval list \<Rightarrow> GenerationMetric list" where
  "applied_change_metrics clk i changes =
     map (\<lambda>(j, change).
            \<lparr>metric_name = ''applied_change'', metric_value = PInt 1,
             metric_timestamp = clk j, metric_tags = [(''desc'', change)]\<rparr>)
         (enumerate i changes)"

text \<open>The persistence callback, if there is one, returns normally on a snapshot.\<close>

definition callback_accepts :: "'w GenerationTracker \<Rightarrow> GenerationSnapshot \<Rightarrow> bool" where
  "callback_accepts tr s =
     (case persistence_callback tr of
        None \<Rightarrow> True
      | Some cb \<Rightarrow> fst (cb (to_json s) (callback_env tr)) = None)"

text \<open>The snapshot the ADVANCE phase seals when the Apply phase reported the list
  \<open>changes\<close>: the tracker starts its next generation, logs the changes, finalizes.\<close>

definition advanced_snapshot ::
  "(nat \<Rightarrow> rat) \<Rightarrow> string \<Rightarrow> pyval list \<Rightarrow> 'w GenerationTracker \<Rightarrow> GenerationSnapshot" where
  "advanced_snapshot clk now changes tr =
     sealed_snapshot STABLE (PList changes) now
       (log_changes clk 0 changes (snd (start_next_generation tr)))"

text \<open>A Test phase override that starts the tracker's next generation itself and then
  returns a fixed result.\<close>

definition restarting_test ::
  "pydict \<Rightarrow> pydict \<Rightarrow> ('w, 'x) GenerationalImprovementLoop \<Rightarrow> ('w, 'x) phase_result" where
  "restarting_test r context st =
     (Inr r, st\<lparr>tracker := snd (start_next_generation (tracker st))\<rparr>)"

text \<open>The path of a version, as both store operations compute it. A version is absent
  when nothing is at its path. The file system answers the look-up of a version when
  neither the existence check nor the read raises.\<close>

definition blueprint_path ::
  "host \<Rightarrow> GenerationalBlueprintManager \<Rightarrow> string \<Rightarrow> string \<Rightarrow> string" where
  "blueprint_path H mgr nm version_tag =
     path_join H (storage_root mgr) (blueprint_filename nm version_tag)"

definition version_absent ::
  "host \<Rightarrow> GenerationalBlueprintManager \<Rightarrow> string \<Rightarrow> string \<Rightarrow> filesystem \<Rightarrow> bool" where
  "version_absent H mgr nm version_tag fs \<longleftrightarrow>
     nodes fs (blueprint_path H mgr nm version_tag) = None"

definition lookup_answers ::
  "host \<Rightarrow> GenerationalBlueprintManager \<Rightarrow> string \<Rightarrow> string \<Rightarrow> filesystem \<Rightarrow> bool" where
  "lookup_answers H mgr nm version_tag fs \<longleftrightarrow>
     \<not> refuses_stat fs (blueprint_path H mgr nm version_tag) \<and>
     (case nodes fs (blueprint_path H mgr nm version_tag) of
        Some (Unreadable e) \<Rightarrow> False
      | _ \<Rightarrow> True)"

text \<open>The paths a Linux file system refuses with \<^verbatim>\<open>ENAMETOOLONG\<close>: those whose file
  name, the part after the last \<open>/\<close>, has more than 255 characters.\<close>

definition name_too_long :: "string \<Rightarrow> bool" where
  "name_too_long path \<longleftrightarrow> 255 < length (takeWhile (\<lambda>c. c \<noteq> CHR ''/'') (rev path))"

text \<open>A clock that reads \<open>r\<close> at every call.\<close>

definition fixed_clock :: "rat \<Rightarrow> nat \<Rightarrow> rat" where
  "fixed_clock r i = r"

section \<open>The tracker: what one call changes\<close>

lemma finalize_state:
  "snd (finalize_generation st notes now tr) =
     tr\<lparr>history := history tr @ [sealed_snapshot st notes now tr],
        callback_env :=
          (case persistence_callback tr of
             None \<Rightarrow> callback_env tr
           | Some cb \<Rightarrow> snd (cb (to_json (sealed_snapshot st notes now tr)) (callback_env tr)))\<rparr>"
  by (auto simp: finalize_generation_def sealed_snapshot_def Let_def
      split: option.splits prod.splits)

lemma finalize_result:
  "fst (finalize_generation st notes now tr) =
     (case persistence_callback tr of
        None \<Rightarrow> Inr (sealed_snapshot st notes now tr)
      | Some cb \<Rightarrow>
          (case fst (cb (to_json (sealed_snapshot st notes now tr)) (callback_env tr)) of
             None \<Rightarrow> Inr (sealed_snapshot st notes now tr)
           | Some e \<Rightarrow> Inl e))"
  by (auto simp: finalize_generation_def sealed_snapshot_def Let_def
      split: option.splits prod.splits)

lemma exec_op_generation:
  "current_generation (exec_op c tr) = current_generation tr + (if is_start c then 1 else 0)"
  by (cases c) (simp_all add: start_next_generation_def log_metric_def register_artifact_def
      finalize_state Let_def)

lemma exec_op_history:
  "history (exec_op c tr) =
     (case c of
        Finalize st notes now \<Rightarrow> history tr @ [sealed_snapshot st notes now tr]
      | _ \<Rightarrow> history tr)"
  by (cases c) (simp_all add: start_next_generation_def log_metric_def register_artifact_def
      finalize_state Let_def)

lemma run_ops_generation:
  "current_generation (run_ops cs tr) = current_generation tr + int (length (filter is_start cs))"
  by (induction cs arbitrary: tr) (simp_all add: exec_op_generation del: exec_op.simps)

lemma run_ops_history_length:
  "length (history (run_ops cs tr)) = length (history tr) + length (filter is_finalize cs)"
  by (induction cs arbitrary: tr)
     (simp_all add: exec_op_history del: exec_op.simps split: tracker_op.splits)

text \<open>
  \<^bold>\<open>Claim C5.\<close> For every tracker state, \<^verbatim>\<open>finalize_generation\<close> leaves
  \<open>current_generation\<close>, the open metrics and the open artifacts as they are. All it
  changes is the history, which gains the new snapshot at its end, and the state of the
  persistence callback, which is what one call of the callback (when there is one) makes
  of it. This holds whether the callback returns or raises.
\<close>

theorem finalize_generation_frame:
  "snd (finalize_generation st notes now tr) =
     tr\<lparr>history := history tr @ [sealed_snapshot st notes now tr],
        callback_env :=
          (case persistence_callback tr of
             None \<Rightarrow> callback_env tr
           | Some cb \<Rightarrow> snd (cb (to_json (sealed_snapshot st notes now tr)) (callback_env tr)))\<rparr>
   \<and> current_generation (snd (finalize_generation st notes now tr)) = current_generation tr
   \<and> current_metrics (snd (finalize_generation st notes now tr)) = current_metrics tr
   \<and> current_artifacts (snd (finalize_generation st notes now tr)) = current_artifacts tr
   \<and> history (snd (finalize_generation st notes now tr)) =
       history tr @ [sealed_snapshot st notes now tr]"
  by (simp add: finalize_state)

section \<open>The tracker: parent links\<close>

lemma parent_linked_snoc:
  "parent_linked p (h @ [s]) \<longleftrightarrow>
     parent_linked p h \<and> parent_gen_id s = (case h of [] \<Rightarrow> p | _ \<Rightarrow> Some (gen_id (last h)))"
  by (induction h arbitrary: p) (auto split: list.splits)

lemma parent_linked_nth:
  "parent_linked p h \<Longrightarrow> i < length h \<Longrightarrow>
     parent_gen_id (h ! i) = (if i = 0 then p else Some (gen_id (h ! (i - 1))))"
proof (induction h arbitrary: p i)
  case Nil
  then show ?case by simp
next
  case (Cons s ss)
  show ?case
  proof (cases i)
    case 0
    with Cons.prems show ?thesis by simp
  next
    case (Suc j)
    with Cons.prems have "parent_gen_id (ss ! j) =
        (if j = 0 then Some (gen_id s) else Some (gen_id (ss ! (j - 1))))"
      using Cons.IH[of "Some (gen_id s)" j] by simp
    with Suc show ?thesis by (cases j) simp_all
  qed
qed

lemma exec_op_parent_linked:
  "parent_linked None (history tr) \<Longrightarrow> parent_linked None (history (exec_op c tr))"
  by (simp add: exec_op_history parent_linked_snoc sealed_snapshot_def del: exec_op.simps
      split: tracker_op.splits list.splits)

lemma run_ops_parent_linked:
  "parent_linked None (history tr) \<Longrightarrow> parent_linked None (history (run_ops cs tr))"
  by (induction cs arbitrary: tr) (simp_all add: exec_op_parent_linked del: exec_op.simps)

text \<open>
  \<^bold>\<open>Claim C2.\<close> In every state a tracker reaches from its construction by calls of its
  methods, the snapshot at index \<open>0\<close> of the history has no parent, and the snapshot at
  every index \<open>i > 0\<close> has as \<open>parent_gen_id\<close> the \<open>gen_id\<close> of the snapshot at \<open>i - 1\<close>.
\<close>

theorem parent_chain:
  "i < length (history (run_ops cs (tracker_init n cb env))) \<Longrightarrow>
   parent_gen_id (history (run_ops cs (tracker_init n cb env)) ! i) =
     (if i = 0 then None
      else Some (gen_id (history (run_ops cs (tracker_init n cb env)) ! (i - 1))))"
proof -
  assume i: "i < length (history (run_ops cs (tracker_init n cb env)))"
  have "parent_linked None (history (tracker_init n cb env))"
    by (simp add: tracker_init_def)
  then have "parent_linked None (history (run_ops cs (tracker_init n cb env)))"
    by (rule run_ops_parent_linked)
  then show ?thesis
    using i by (rule parent_linked_nth)
qed

text \<open>Two generations, each started and finalized: the second snapshot's parent is the
  first one's \<open>gen_id\<close>, which is \<open>1\<close>.\<close>

theorem parent_chain_witness:
  "1 < length (history (run_ops
         [StartNext, Finalize STABLE PNone ''t1'', StartNext, Finalize STABLE PNone ''t2'']
         (tracker_init ''TestComponent'' None ())))
   \<and> parent_gen_id (history (run_ops
         [StartNext, Finalize STABLE PNone ''t1'', StartNext, Finalize STABLE PNone ''t2'']
         (tracker_init ''TestComponent'' None ())) ! 1) = Some 1"
proof -
  have len: "1 < length (history (run_ops
         [StartNext, Finalize STABLE PNone ''t1'', StartNext, Finalize STABLE PNone ''t2'']
         (tracker_init ''TestComponent'' None ())))"
    by (simp add: tracker_init_def finalize_generation_def start_next_generation_def Let_def)
  show ?thesis
    using len parent_chain[OF len]
    by (simp add: tracker_init_def finalize_generation_def start_next_generation_def Let_def)
qed

section \<open>The tracker: generation numbering\<close>

lemma run_ops_gen_ids:
  "one_start_per_finalize p cs \<Longrightarrow>
   current_generation tr = int (length (history tr)) + int p \<Longrightarrow>
   map gen_id (history (run_ops cs tr)) =
     map gen_id (history tr) @
     map int [Suc (length (history tr)) ..<
              Suc (length (history tr) + length (filter is_finalize cs))]"
proof (induction cs arbitrary: tr p)
  case Nil
  show ?case by simp
next
  case (Cons c cs)
  show ?case
  proof (cases c)
    case StartNext
    have "one_start_per_finalize (Suc p) cs"
      using Cons.prems(1) StartNext by simp
    moreover have "current_generation (exec_op c tr) =
        int (length (history (exec_op c tr))) + int (Suc p)"
      using Cons.prems(2) StartNext by (simp add: start_next_generation_def Let_def)
    ultimately have "map gen_id (history (run_ops cs (exec_op c tr))) =
        map gen_id (history (exec_op c tr)) @
        map int [Suc (length (history (exec_op c tr))) ..<
                 Suc (length (history (exec_op c tr)) + length (filter is_finalize cs))]"
      by (rule Cons.IH)
    then show ?thesis
      using StartNext by (simp add: start_next_generation_def Let_def)
  next
    case (LogMetric nm v tags ts)
    have "one_start_per_finalize p cs"
      using Cons.prems(1) LogMetric by simp
    moreover have "current_generation (exec_op c tr) =
        int (length (history (exec_op c tr))) + int p"
      using Cons.prems(2) LogMetric by (simp add: log_metric_def Let_def)
    ultimately have "map gen_id (history (run_ops cs (exec_op c tr))) =
        map gen_id (history (exec_op c tr)) @
        map int [Suc (length (history (exec_op c tr))) ..<
                 Suc (length (history (exec_op c tr)) + length (filter is_finalize cs))]"
      by (rule Cons.IH)
    then show ?thesis
      using LogMetric by (simp add: log_metric_def Let_def)
  next
    case (RegisterArtifact nm path type_hint digest)
    have "one_start_per_finalize p cs"
      using Cons.prems(1) RegisterArtifact by simp
    moreover have "current_generation (exec_op c tr) =
        int (length (history (exec_op c tr))) + int p"
      using Cons.prems(2) RegisterArtifact by (simp add: register_artifact_def Let_def)
    ultimately have "map gen_id (history (run_ops cs (exec_op c tr))) =
        map gen_id (history (exec_op c tr)) @
        map int [Suc (length (history (exec_op c tr))) ..<
                 Suc (length (history (exec_op c tr)) + length (filter is_finalize cs))]"
      by (rule Cons.IH)
    then show ?thesis
      using RegisterArtifact by (simp add: register_artifact_def Let_def)
  next
    case (Finalize st nts now)
    let ?n = "length (history tr)"
    let ?k = "length (filter is_finalize cs)"
    have p1: "p = 1" and rest: "one_start_per_finalize 0 cs"
      using Cons.prems(1) Finalize by simp_all
    have hist: "history (exec_op c tr) = history tr @ [sealed_snapshot st nts now tr]"
      using Finalize by (simp add: finalize_state)
    have gen: "current_generation (exec_op c tr) =
        int (length (history (exec_op c tr))) + int 0"
      using Cons.prems(2) p1 Finalize by (simp add: finalize_state)
    have "map gen_id (history (run_ops cs (exec_op c tr))) =
        map gen_id (history (exec_op c tr)) @
        map int [Suc (length (history (exec_op c tr))) ..<
                 Suc (length (history (exec_op c tr)) + ?k)]"
      using rest gen by (rule Cons.IH)
    moreover have "gen_id (sealed_snapshot st nts now tr) = int (Suc ?n)"
      using Cons.prems(2) p1 by (simp add: sealed_snapshot_def)
    moreover have "[Suc ?n ..< Suc (Suc ?n + ?k)] = Suc ?n # [Suc (Suc ?n) ..< Suc (Suc ?n + ?k)]"
      by (rule upt_conv_Cons) simp
    ultimately show ?thesis
      using Finalize hist by (simp del: upt_Suc)
  qed
qed

text \<open>
  \<^bold>\<open>Claim C1\<close>, as the code has it. \<open>current_generation\<close> starts at \<open>0\<close>, and each
  \<^verbatim>\<open>start_next_generation\<close> increases it by exactly \<open>1\<close> and returns the new value, so
  after any sequence of calls it is the number of starts. After any sequence of calls
  the history is as long as the number of \<^verbatim>\<open>finalize_generation\<close> calls made. The
  tracker does not enforce the order of the calls; when every finalize comes after
  exactly one start since the finalize before it (or since construction), the sealed
  \<open>gen_id\<close>s are \<open>1, 2, 3, \<dots>\<close> without gaps, each its history index plus \<open>1\<close>.
\<close>

theorem generation_numbering:
  "current_generation (tracker_init n cb env) = 0
   \<and> fst (start_next_generation tr) = current_generation tr + 1
   \<and> current_generation (snd (start_next_generation tr)) = current_generation tr + 1
   \<and> current_generation (run_ops cs (tracker_init n cb env)) = int (length (filter is_start cs))
   \<and> length (history (run_ops cs (tracker_init n cb env))) = length (filter is_finalize cs)
   \<and> (one_start_per_finalize 0 cs \<longrightarrow>
        map gen_id (history (run_ops cs (tracker_init n cb env))) =
          map int [1 ..< Suc (length (filter is_finalize cs))]
        \<and> (\<forall>i < length (history (run_ops cs (tracker_init n cb env))).
             gen_id (history (run_ops cs (tracker_init n cb env)) ! i) = int i + 1))"
proof -
  let ?tr0 = "tracker_init n cb env :: 'a GenerationTracker"
  let ?h = "history (run_ops cs ?tr0)"
  have len: "length ?h = length (filter is_finalize cs)"
    by (simp add: run_ops_history_length tracker_init_def)
  have ids: "map gen_id ?h = map int [1 ..< Suc (length (filter is_finalize cs))]"
    if d: "one_start_per_finalize 0 cs"
  proof -
    have "current_generation ?tr0 = int (length (history ?tr0)) + int 0"
      by (simp add: tracker_init_def)
    with d have "map gen_id ?h = map gen_id (history ?tr0) @
        map int [Suc (length (history ?tr0)) ..<
                 Suc (length (history ?tr0) + length (filter is_finalize cs))]"
      by (rule run_ops_gen_ids)
    then show ?thesis by (simp add: tracker_init_def)
  qed
  have idx: "gen_id (?h ! i) = int i + 1"
    if d: "one_start_per_finalize 0 cs" and i: "i < length ?h" for i
  proof -
    have "gen_id (?h ! i) = map gen_id ?h ! i"
      using i by simp
    also have "\<dots> = map int [1 ..< Suc (length (filter is_finalize cs))] ! i"
      using ids[OF d] by simp
    also have "\<dots> = int i + 1"
      using i len by (simp del: upt_Suc)
    finally show ?thesis .
  qed
  show ?thesis
    using len ids idx
    by (simp add: run_ops_generation start_next_generation_def Let_def tracker_init_def)
qed

text \<open>The lifecycle of the repository's test, continued by a second generation: the
  discipline holds and the sealed ids are \<open>1, 2\<close>.\<close>

theorem generation_numbering_witness:
  "one_start_per_finalize 0
     [StartNext, LogMetric ''cpu_usage'' (PFloat (91 / 2)) None 0,
      Finalize STABLE (PList [PStr ''Initial release'']) ''t1'',
      StartNext, Finalize STABLE PNone ''t2'']
   \<and> map gen_id (history (run_ops
         [StartNext, LogMetric ''cpu_usage'' (PFloat (91 / 2)) None 0,
          Finalize STABLE (PList [PStr ''Initial release'']) ''t1'',
          StartNext, Finalize STABLE PNone ''t2'']
         (tracker_init ''TestComponent'' None ()))) = [1, 2]"
proof -
  have d: "one_start_per_finalize 0
     [StartNext, LogMetric ''cpu_usage'' (PFloat (91 / 2)) None 0,
      Finalize STABLE (PList [PStr ''Initial release'']) ''t1'',
      StartNext, Finalize STABLE PNone ''t2'']"
    by simp
  have "map gen_id (history (run_ops
         [StartNext, LogMetric ''cpu_usage'' (PFloat (91 / 2)) None 0,
          Finalize STABLE (PList [PStr ''Initial release'']) ''t1'',
          StartNext, Finalize STABLE PNone ''t2'']
         (tracker_init ''TestComponent'' None ()))) =
        map int [1 ..< Suc (length (filter is_finalize
         [StartNext, LogMetric ''cpu_usage'' (PFloat (91 / 2)) None 0,
          Finalize STABLE (PList [PStr ''Initial release'']) ''t1'',
          StartNext, Finalize STABLE PNone ''t2'']))]"
    using d generation_numbering[where cs = "[StartNext,
      LogMetric ''cpu_usage'' (PFloat (91 / 2)) None 0,
      Finalize STABLE (PList [PStr ''Initial release'']) ''t1'',
      StartNext, Finalize STABLE PNone ''t2'']"
      and n = "''TestComponent''" and cb = None and env = "()"]
    by blast
  also have "\<dots> = [1, 2]"
    by (simp add: upt_rec)
  finally show ?thesis
    using d by simp
qed

text \<open>The claim as stated fails on the first call of the repository's demo, which
  finalizes a fresh tracker before any generation was started: the snapshot at index
  \<open>0\<close> gets \<open>gen_id = 0\<close>, not \<open>1\<close>.\<close>

theorem finalize_at_generation_zero:
  "map gen_id (history (run_ops [Finalize ALPHA (PList [PStr ''Initial setup'']) ''t0'']
      (tracker_init ''DataProcessor'' None ()))) = [0]
   \<and> gen_id (history (run_ops [Finalize ALPHA (PList [PStr ''Initial setup'']) ''t0'']
      (tracker_init ''DataProcessor'' None ())) ! 0) \<noteq> int 0 + 1"
  by (simp add: tracker_init_def finalize_generation_def Let_def)

section \<open>The tracker: metric trends\<close>

lemma trend_scan_eq:
  "trend_scan x g ms trend =
     trend @ (case find (\<lambda>m. metric_name m = x) ms of
                None \<Rightarrow> []
              | Some m \<Rightarrow> [(g, metric_value m)])"
  by (induction ms) simp_all

lemma trend_loop_eq: "trend_loop x h trend = trend @ trend_spec x h"
  by (induction h arbitrary: trend) (simp_all add: trend_spec_def trend_scan_eq)

lemma trend_spec_gen_ids:
  "map fst (trend_spec x h) =
     map gen_id (filter (\<lambda>s. x \<in> metric_name ` set (metrics s)) h)"
proof (induction h)
  case Nil
  show ?case by (simp add: trend_spec_def)
next
  case (Cons s h)
  have "find (\<lambda>m. metric_name m = x) (metrics s) = None \<longleftrightarrow>
      x \<notin> metric_name ` set (metrics s)"
    by (auto simp: find_None_iff)
  with Cons show ?case
    by (auto simp: trend_spec_def split: option.splits)
qed

lemma exec_op_gen_ids_bounded: "gen_ids_bounded tr \<Longrightarrow> gen_ids_bounded (exec_op c tr)"
  by (cases c)
     (auto simp: gen_ids_bounded_def start_next_generation_def log_metric_def
        register_artifact_def finalize_state Let_def sealed_snapshot_def sorted_append
        list_all_iff)

lemma run_ops_gen_ids_bounded: "gen_ids_bounded tr \<Longrightarrow> gen_ids_bounded (run_ops cs tr)"
  by (induction cs arbitrary: tr) (simp_all add: exec_op_gen_ids_bounded del: exec_op.simps)

lemma init_gen_ids_bounded: "gen_ids_bounded (tracker_init n cb env)"
  by (simp add: gen_ids_bounded_def tracker_init_def)

text \<open>
  \<^bold>\<open>Claim C8.\<close> For every tracker and every metric name \<open>x\<close>, \<^verbatim>\<open>get_metric_trend\<close>
  returns, in history order, one pair per snapshot that holds at least one metric named
  \<open>x\<close>: the snapshot's \<open>gen_id\<close> with the value of the first such metric in logging
  order. Snapshots without such a metric contribute nothing. On every tracker reached
  from its construction by calls of its methods the \<open>gen_id\<close>s of the pairs ascend
  (two snapshots sealed without a start between them carry the same \<open>gen_id\<close>).
\<close>

theorem get_metric_trend_first_match:
  "get_metric_trend x tr = trend_spec x (history tr)
   \<and> map fst (get_metric_trend x tr) =
       map gen_id (filter (\<lambda>s. x \<in> metric_name ` set (metrics s)) (history tr))
   \<and> sorted (map fst (get_metric_trend x (run_ops cs (tracker_init n cb env))))"
proof -
  have eq: "get_metric_trend x t = trend_spec x (history t)" for t :: "'b GenerationTracker"
    by (simp add: get_metric_trend_def trend_loop_eq)
  have "gen_ids_bounded (run_ops cs (tracker_init n cb env))"
    by (rule run_ops_gen_ids_bounded) (rule init_gen_ids_bounded)
  then have "sorted (map gen_id (history (run_ops cs (tracker_init n cb env))))"
    by (simp add: gen_ids_bounded_def)
  then have "sorted (map gen_id (filter (\<lambda>s. x \<in> metric_name ` set (metrics s))
      (history (run_ops cs (tracker_init n cb env)))))"
    by (rule sorted_filter)
  then show ?thesis
    by (simp add: eq get_metric_trend_def trend_loop_eq trend_spec_gen_ids)
qed

text \<open>Three generations: the first logs \<open>x\<close> twice (the first value counts), the second
  does not log \<open>x\<close>, the third logs it after another metric.\<close>

lemma get_metric_trend_example:
  "get_metric_trend ''x''
     (run_ops
        [StartNext, LogMetric ''x'' (PInt 5) None 0, LogMetric ''x'' (PInt 6) None 0,
         Finalize STABLE PNone ''t1'',
         StartNext, LogMetric ''y'' (PInt 7) None 0, Finalize STABLE PNone ''t2'',
         StartNext, LogMetric ''y'' (PInt 8) None 0, LogMetric ''x'' (PInt 9) None 0,
         Finalize STABLE PNone ''t3'']
        (tracker_init ''c'' None ()))
   = [(1, PInt 5), (3, PInt 9)]"
  by (simp add: get_metric_trend_def tracker_init_def start_next_generation_def log_metric_def
      finalize_generation_def Let_def)

section \<open>The blueprint store\<close>

lemma CR_neq_LF: "CR \<noteq> LF"
  by (simp add: CR_def LF_def)

lemma universal_newlines_Cons:
  "c \<noteq> CR \<Longrightarrow> universal_newlines (c # s) = c # universal_newlines s"
  by (cases s) simp_all

lemma write_newlines_Cons:
  "write_newlines pf (c # s) = (if c = LF then linesep pf else [c]) @ write_newlines pf s"
  by (simp add: write_newlines_def)

text \<open>Text without carriage returns comes back from a file as it was written, on
  either platform.\<close>

lemma newlines_roundtrip:
  "CR \<notin> set s \<Longrightarrow> universal_newlines (write_newlines pf s) = s"
proof (induction s)
  case Nil
  show ?case by (simp add: write_newlines_def)
next
  case (Cons c s)
  then have IH: "universal_newlines (write_newlines pf s) = s" and c: "c \<noteq> CR"
    by auto
  show ?case
  proof (cases "c = LF")
    case True
    show ?thesis
    proof (cases pf)
      case Posix
      have "universal_newlines (LF # write_newlines pf s) = LF # universal_newlines (write_newlines pf s)"
        using CR_neq_LF by (intro universal_newlines_Cons) simp
      with True Posix IH show ?thesis
        by (simp add: write_newlines_Cons del: universal_newlines.simps)
    next
      case Windows
      with True IH show ?thesis
        by (simp add: write_newlines_Cons)
    qed
  next
    case False
    with IH c show ?thesis
      by (simp add: write_newlines_Cons universal_newlines_Cons del: universal_newlines.simps)
  qed
qed

lemma save_result:
  "save_blueprint H mgr nm content version_tag fs = Inr (p, fs') \<Longrightarrow>
   p = blueprint_path H mgr nm version_tag \<and>
   fs' = fs\<lparr>nodes := (nodes fs)(p \<mapsto> TextFile (write_newlines (os_platform H) content))\<rparr>"
  by (auto simp: save_blueprint_def blueprint_path_def Let_def split: if_splits)

lemma save_then_load:
  "save_blueprint H mgr nm content version_tag fs = Inr (p, fs') \<Longrightarrow>
   \<not> refuses_stat fs p \<Longrightarrow>
   load_blueprint H mgr nm version_tag fs' =
     Inr (Some (universal_newlines (write_newlines (os_platform H) content)))"
  by (auto simp: save_blueprint_def load_blueprint_def Let_def split: if_splits)

lemma save_load_roundtrip:
  "save_blueprint H mgr nm content version_tag fs = Inr (p, fs') \<Longrightarrow>
   \<not> refuses_stat fs p \<Longrightarrow> CR \<notin> set content \<Longrightarrow>
   load_blueprint H mgr nm version_tag fs' = Inr (Some content)"
  by (simp add: save_then_load newlines_roundtrip)

text \<open>
  \<^bold>\<open>Claim C6\<close> says that \<^verbatim>\<open>save_blueprint(P, C, tag)\<close> followed by
  \<^verbatim>\<open>load_blueprint(P, tag)\<close> returns exactly \<open>C\<close>, for every content. The code misses
  this for content with a carriage return: on a file system that takes the write and
  the look-up, on either platform and under any storage root, saving the three
  characters \<open>a\<close>, CR, \<open>b\<close> and loading them again returns \<open>a\<close>, LF, \<open>b\<close>. (Content
  without carriage returns does come back unchanged: \<open>save_load_roundtrip\<close>.)
\<close>

theorem carriage_return_not_preserved:
  "(case save_blueprint H mgr ''P'' [CHR ''a'', CR, CHR ''b''] ''v1''
           (fs\<lparr>refuses_stat := (\<lambda>p. False), refuses_write := (\<lambda>p. False)\<rparr>) of
      Inl e \<Rightarrow> Inl e
    | Inr (path, fs') \<Rightarrow> load_blueprint H mgr ''P'' ''v1'' fs')
   = Inr (Some [CHR ''a'', LF, CHR ''b''])"
  by (simp add: save_blueprint_def load_blueprint_def Let_def write_newlines_def CR_def LF_def)

text \<open>
  \<^bold>\<open>Claim C7\<close>, as the code has it. An I/O failure of a look-up reaches the caller:
  the existence check raises on a path the system refuses, the read raises on a
  directory or on bytes that do not decode. When the file system answers the look-up of
  an absent version, \<^verbatim>\<open>load_blueprint\<close> returns the not-found value \<open>None\<close> and does not
  raise. When it answers both look-ups and either version is absent,
  \<^verbatim>\<open>diff_blueprints\<close> returns the one-element list with the error message and does not
  raise.
\<close>

theorem diff_missing_version:
  "(lookup_answers H mgr nm v fs \<and> version_absent H mgr nm v fs \<longrightarrow>
      load_blueprint H mgr nm v fs = Inr None)
   \<and> (lookup_answers H mgr nm v1 fs \<and> lookup_answers H mgr nm v2 fs \<and>
       (version_absent H mgr nm v1 fs \<or> version_absent H mgr nm v2 fs) \<longrightarrow>
        diff_blueprints H mgr nm v1 v2 fs = Inr [''Error: One or both versions not found.''])"
proof -
  have answered: "\<exists>b. load_blueprint H mgr nm w fs = Inr b" if "lookup_answers H mgr nm w fs" for w
    using that
    by (auto simp: lookup_answers_def load_blueprint_def blueprint_path_def Let_def
        split: option.splits node.splits)
  have absent: "load_blueprint H mgr nm w fs = Inr None"
    if "lookup_answers H mgr nm w fs" "version_absent H mgr nm w fs" for w
    using that
    by (simp add: lookup_answers_def version_absent_def load_blueprint_def blueprint_path_def Let_def)
  have "diff_blueprints H mgr nm v1 v2 fs = Inr [''Error: One or both versions not found.'']"
    if a1: "lookup_answers H mgr nm v1 fs" and a2: "lookup_answers H mgr nm v2 fs"
    and ab: "version_absent H mgr nm v1 fs \<or> version_absent H mgr nm v2 fs"
  proof -
    obtain b1 b2 where l1: "load_blueprint H mgr nm v1 fs = Inr b1"
      and l2: "load_blueprint H mgr nm v2 fs = Inr b2"
      using answered[OF a1] answered[OF a2] by blast
    have "b1 = None \<or> b2 = None"
      using ab absent[OF a1] absent[OF a2] l1 l2 by auto
    then show ?thesis
      by (simp add: diff_blueprints_def l1 l2)
  qed
  with absent show ?thesis by blast
qed

text \<open>A store that holds version \<open>v1\<close> of \<open>P\<close> and nothing else, on a file system
  with the Linux limit on names: both look-ups are answered, \<open>v9\<close> is absent and not
  found, and the diff of \<open>v1\<close> and \<open>v9\<close> is the error message. (The two diffing
  functions of the host are never called.)\<close>

theorem diff_missing_version_witness:
  "lookup_answers
     \<lparr>os_platform = Posix, path_join = (\<lambda>d f. d @ ''/'' @ f),
      splitlines = undefined, unified_diff = undefined\<rparr>
     (blueprint_manager_init ''blueprints'') ''P'' ''v1''
     \<lparr>nodes = [''blueprints/P_vv1.kl'' \<mapsto> TextFile ''step: 1''],
      refuses_stat = name_too_long, refuses_write = name_too_long\<rparr>
   \<and> lookup_answers
     \<lparr>os_platform = Posix, path_join = (\<lambda>d f. d @ ''/'' @ f),
      splitlines = undefined, unified_diff = undefined\<rparr>
     (blueprint_manager_init ''blueprints'') ''P'' ''v9''
     \<lparr>nodes = [''blueprints/P_vv1.kl'' \<mapsto> TextFile ''step: 1''],
      refuses_stat = name_too_long, refuses_write = name_too_long\<rparr>
   \<and> version_absent
     \<lparr>os_platform = Posix, path_join = (\<lambda>d f. d @ ''/'' @ f),
      splitlines = undefined, unified_diff = undefined\<rparr>
     (blueprint_manager_init ''blueprints'') ''P'' ''v9''
     \<lparr>nodes = [''blueprints/P_vv1.kl'' \<mapsto> TextFile ''step: 1''],
      refuses_stat = name_too_long, refuses_write = name_too_long\<rparr>
   \<and> load_blueprint
     \<lparr>os_platform = Posix, path_join = (\<lambda>d f. d @ ''/'' @ f),
      splitlines = undefined, unified_diff = undefined\<rparr>
     (blueprint_manager_init ''blueprints'') ''P'' ''v9''
     \<lparr>nodes = [''blueprints/P_vv1.kl'' \<mapsto> TextFile ''step: 1''],
      refuses_stat = name_too_long, refuses_write = name_too_long\<rparr> = Inr None
   \<and> diff_blueprints
     \<lparr>os_platform = Posix, path_join = (\<lambda>d f. d @ ''/'' @ f),
      splitlines = undefined, unified_diff = undefined\<rparr>
     (blueprint_manager_init ''blueprints'') ''P'' ''v1'' ''v9''
     \<lparr>nodes = [''blueprints/P_vv1.kl'' \<mapsto> TextFile ''step: 1''],
      refuses_stat = name_too_long, refuses_write = name_too_long\<rparr>
     = Inr [''Error: One or both versions not found.'']"
proof -
  let ?H = "\<lparr>os_platform = Posix, path_join = (\<lambda>d f. d @ ''/'' @ f),
      splitlines = undefined, unified_diff = undefined\<rparr>"
  let ?m = "blueprint_manager_init ''blueprints''"
  let ?fs = "\<lparr>nodes = [''blueprints/P_vv1.kl'' \<mapsto> TextFile ''step: 1''],
      refuses_stat = name_too_long, refuses_write = name_too_long\<rparr>"
  have a1: "lookup_answers ?H ?m ''P'' ''v1'' ?fs"
    by (simp add: lookup_answers_def blueprint_path_def blueprint_manager_init_def
        blueprint_filename_def name_too_long_def)
  have a9: "lookup_answers ?H ?m ''P'' ''v9'' ?fs"
    by (simp add: lookup_answers_def blueprint_path_def blueprint_manager_init_def
        blueprint_filename_def name_too_long_def)
  have ab: "version_absent ?H ?m ''P'' ''v9'' ?fs"
    by (simp add: version_absent_def blueprint_path_def blueprint_manager_init_def
        blueprint_filename_def)
  have l: "load_blueprint ?H ?m ''P'' ''v9'' ?fs = Inr None"
    using a9 ab diff_missing_version[of ?H ?m "''P''" "''v9''" ?fs]
    by blast
  have d: "diff_blueprints ?H ?m ''P'' ''v1'' ''v9'' ?fs
     = Inr [''Error: One or both versions not found.'']"
    using a1 a9 ab diff_missing_version[of ?H ?m "''P''" "''v9''" ?fs "''v1''" "''v9''"]
    by blast
  from a1 a9 ab l d show ?thesis
    by (intro conjI)
qed

text \<open>The claim as stated fails for a name of 256 characters on the same file
  system: the version is absent, and the existence check of \<^verbatim>\<open>load_blueprint\<close> raises
  \<^verbatim>\<open>OSError\<close>; so does \<^verbatim>\<open>diff_blueprints\<close>.\<close>

theorem absent_long_name_raises:
  "version_absent
     \<lparr>os_platform = Posix, path_join = (\<lambda>d f. d @ ''/'' @ f),
      splitlines = undefined, unified_diff = undefined\<rparr>
     (blueprint_manager_init ''blueprints'') (replicate 256 (CHR ''a'')) ''v1''
     \<lparr>nodes = Map.empty, refuses_stat = name_too_long, refuses_write = name_too_long\<rparr>
   \<and> load_blueprint
     \<lparr>os_platform = Posix, path_join = (\<lambda>d f. d @ ''/'' @ f),
      splitlines = undefined, unified_diff = undefined\<rparr>
     (blueprint_manager_init ''blueprints'') (replicate 256 (CHR ''a'')) ''v1''
     \<lparr>nodes = Map.empty, refuses_stat = name_too_long, refuses_write = name_too_long\<rparr>
     = Inl OSError
   \<and> diff_blueprints
     \<lparr>os_platform = Posix, path_join = (\<lambda>d f. d @ ''/'' @ f),
      splitlines = undefined, unified_diff = undefined\<rparr>
     (blueprint_manager_init ''blueprints'') (replicate 256 (CHR ''a'')) ''v1'' ''v2''
     \<lparr>nodes = Map.empty, refuses_stat = name_too_long, refuses_write = name_too_long\<rparr>
     = Inl OSError"
proof -
  have long: "name_too_long (''blueprints'' @ ''/'' @ replicate 256 (CHR ''a'') @ ''_v'' @ ''v1'' @ ''.kl'')"
    by code_simp
  show ?thesis
    using long
    by (simp add: version_absent_def load_blueprint_def diff_blueprints_def blueprint_path_def
        blueprint_manager_init_def blueprint_filename_def Let_def)
qed

text \<open>Two saves under the colliding pairs, for any contents: the second overwrites
  the first, and loading the first pair returns the second content as a file gives it
  back.\<close>

lemma collision_reads_second_save:
  assumes s1: "save_blueprint H mgr ''a_vb'' c1 ''c'' fs = Inr (p1, fs1)"
      and s2: "save_blueprint H mgr ''a'' c2 ''b_vc'' fs1 = Inr (p2, fs2)"
      and st: "\<not> refuses_stat fs p1"
  shows "p1 = p2"
    and "load_blueprint H mgr ''a_vb'' ''c'' fs2 =
           Inr (Some (universal_newlines (write_newlines (os_platform H) c2)))"
    and "CR \<notin> set c2 \<Longrightarrow> load_blueprint H mgr ''a_vb'' ''c'' fs2 = Inr (Some c2)"
proof -
  have same: "blueprint_filename ''a_vb'' ''c'' = blueprint_filename ''a'' ''b_vc''"
    by (simp add: blueprint_filename_def)
  have p1: "p1 = blueprint_path H mgr ''a_vb'' ''c''"
    and fs1: "refuses_stat fs1 = refuses_stat fs"
    using save_result[OF s1] by simp_all
  have p2: "p2 = blueprint_path H mgr ''a'' ''b_vc''"
    using save_result[OF s2] by simp
  show eq: "p1 = p2"
    by (simp add: p1 p2 blueprint_path_def same)
  have "\<not> refuses_stat fs1 p2"
    using st eq fs1 by simp
  with s2 have "load_blueprint H mgr ''a'' ''b_vc'' fs2 =
      Inr (Some (universal_newlines (write_newlines (os_platform H) c2)))"
    by (rule save_then_load)
  moreover have "load_blueprint H mgr ''a_vb'' ''c'' fs2 = load_blueprint H mgr ''a'' ''b_vc'' fs2"
    by (simp add: load_blueprint_def same)
  ultimately show l: "load_blueprint H mgr ''a_vb'' ''c'' fs2 =
      Inr (Some (universal_newlines (write_newlines (os_platform H) c2)))"
    by simp
  show "load_blueprint H mgr ''a_vb'' ''c'' fs2 = Inr (Some c2)" if "CR \<notin> set c2"
    using l that by (simp add: newlines_roundtrip)
qed

text \<open>
  \<^bold>\<open>Claim C10.\<close> A version is stored under the one string
  \<open>name + "_v" + version_tag + ".kl"\<close>, and this map from pairs to identifiers is not
  injective: the distinct pairs \<open>("a_vb", "c")\<close> and \<open>("a", "b_vc")\<close> share the file
  name, hence the storage location. The claim goes on to say that after saving \<open>C1\<close>
  under the first and \<open>C2\<close> under the second, loading the first returns \<open>C2\<close>. The
  load does return the second save, but through the newline translation of claim C6:
  for \<open>C2\<close> the three characters \<open>a\<close>, CR, \<open>b\<close> it returns \<open>a\<close>, LF, \<open>b\<close>, whatever
  \<open>C1\<close> was.
\<close>

theorem filename_collision:
  "blueprint_filename ''a_vb'' ''c'' = blueprint_filename ''a'' ''b_vc''
   \<and> (''a_vb'', ''c'') \<noteq> (''a'', ''b_vc'')
   \<and> \<not> inj (\<lambda>(nm, version_tag). blueprint_filename nm version_tag)
   \<and> (case save_blueprint H mgr ''a_vb'' c1 ''c''
              (fs\<lparr>refuses_stat := (\<lambda>p. False), refuses_write := (\<lambda>p. False)\<rparr>) of
         Inl e \<Rightarrow> Inl e
       | Inr (p1, fs1) \<Rightarrow>
           (case save_blueprint H mgr ''a'' [CHR ''a'', CR, CHR ''b''] ''b_vc'' fs1 of
              Inl e \<Rightarrow> Inl e
            | Inr (p2, fs2) \<Rightarrow> load_blueprint H mgr ''a_vb'' ''c'' fs2))
       = Inr (Some [CHR ''a'', LF, CHR ''b''])"
proof -
  have same: "blueprint_filename ''a_vb'' ''c'' = blueprint_filename ''a'' ''b_vc''"
    by (simp add: blueprint_filename_def)
  have "\<not> inj (\<lambda>(nm, version_tag). blueprint_filename nm version_tag)"
  proof
    assume "inj (\<lambda>(nm, version_tag). blueprint_filename nm version_tag)"
    then have "(''a_vb'', ''c'') = (''a'', ''b_vc'')"
      using same by (auto dest!: injD[where x = "(''a_vb'', ''c'')" and y = "(''a'', ''b_vc'')"])
    then show False by simp
  qed
  moreover have "(''a_vb'', ''c'') \<noteq> (''a'', ''b_vc'')"
    by simp
  moreover have "(case save_blueprint H mgr ''a_vb'' c1 ''c''
              (fs\<lparr>refuses_stat := (\<lambda>p. False), refuses_write := (\<lambda>p. False)\<rparr>) of
         Inl e \<Rightarrow> Inl e
       | Inr (p1, fs1) \<Rightarrow>
           (case save_blueprint H mgr ''a'' [CHR ''a'', CR, CHR ''b''] ''b_vc'' fs1 of
              Inl e \<Rightarrow> Inl e
            | Inr (p2, fs2) \<Rightarrow> load_blueprint H mgr ''a_vb'' ''c'' fs2))
       = Inr (Some [CHR ''a'', LF, CHR ''b''])"
    by (simp add: save_blueprint_def load_blueprint_def same Let_def write_newlines_def
        CR_def LF_def)
  ultimately show ?thesis
    using same by blast
qed

section \<open>The improvement loop\<close>

lemma log_changes_eq:
  "log_changes clk i cs tr =
     tr\<lparr>current_metrics := current_metrics tr @ applied_change_metrics clk i cs\<rparr>"
  by (induction cs arbitrary: i tr)
     (simp_all add: applied_change_metrics_def log_metric_def Let_def)

lemma advanced_snapshot_fields:
  "gen_id (advanced_snapshot clk now cs tr) = current_generation tr + 1"
  "changelog (advanced_snapshot clk now cs tr) = PList cs"
  "metrics (advanced_snapshot clk now cs tr) = applied_change_metrics clk 0 cs"
  "artifacts (advanced_snapshot clk now cs tr) = []"
  "status (advanced_snapshot clk now cs tr) = STABLE"
  "timestamp (advanced_snapshot clk now cs tr) = now"
  "parent_gen_id (advanced_snapshot clk now cs tr) =
     (if history tr \<noteq> [] then Some (gen_id (last (history tr))) else None)"
  by (simp_all add: advanced_snapshot_def sealed_snapshot_def log_changes_eq start_next_generation_def Let_def)

lemma phase_advance_list:
  assumes ch: "map_of p ''changes'' = Some (PList cs)"
      and cb: "callback_accepts (tracker st) (advanced_snapshot clk now cs (tracker st))"
  shows "fst (phase_advance clk now p st) =
           Inr [(''gen_id'', PInt (current_generation (tracker st) + 1)), (''snapshot_id'', PStr now)]"
    and "current_generation (tracker (snd (phase_advance clk now p st))) =
           current_generation (tracker st) + 1"
    and "history (tracker (snd (phase_advance clk now p st))) =
           history (tracker st) @ [advanced_snapshot clk now cs (tracker st)]"
    and "current_phase (snd (phase_advance clk now p st)) = ADVANCE"
proof -
  let ?tr1 = "snd (start_next_generation (tracker st))"
  let ?tr2 = "log_changes clk 0 cs ?tr1"
  have nts: "dict_get ''changes'' p = PList cs"
    and it: "py_iter (dict_get_default ''changes'' (PList []) p) = Inr cs"
    using ch by (simp_all add: dict_get_def dict_get_default_def)
  have seal: "sealed_snapshot STABLE (PList cs) now ?tr2 = advanced_snapshot clk now cs (tracker st)"
    by (simp add: advanced_snapshot_def)
  have pc: "persistence_callback ?tr2 = persistence_callback (tracker st)"
    and ce: "callback_env ?tr2 = callback_env (tracker st)"
    by (simp_all add: log_changes_eq start_next_generation_def Let_def)
  have fin1: "fst (finalize_generation STABLE (PList cs) now ?tr2) =
      Inr (advanced_snapshot clk now cs (tracker st))"
    using cb by (auto simp: finalize_result seal pc ce callback_accepts_def split: option.splits)
  have fin2: "snd (finalize_generation STABLE (PList cs) now ?tr2) =
      ?tr2\<lparr>history := history ?tr2 @ [advanced_snapshot clk now cs (tracker st)],
           callback_env :=
             (case persistence_callback (tracker st) of
                None \<Rightarrow> callback_env (tracker st)
              | Some f \<Rightarrow> snd (f (to_json (advanced_snapshot clk now cs (tracker st)))
                               (callback_env (tracker st))))\<rparr>"
    by (simp add: finalize_state seal pc ce cong: option.case_cong)
  obtain r tr3 where fin: "finalize_generation STABLE (PList cs) now ?tr2 = (r, tr3)"
    by (cases "finalize_generation STABLE (PList cs) now ?tr2")
  with fin1 fin2 have r: "r = Inr (advanced_snapshot clk now cs (tracker st))"
    and tr3: "tr3 = ?tr2\<lparr>history := history ?tr2 @ [advanced_snapshot clk now cs (tracker st)],
           callback_env :=
             (case persistence_callback (tracker st) of
                None \<Rightarrow> callback_env (tracker st)
              | Some f \<Rightarrow> snd (f (to_json (advanced_snapshot clk now cs (tracker st)))
                               (callback_env (tracker st))))\<rparr>"
    by simp_all
  have adv: "phase_advance clk now p st =
      (Inr [(''gen_id'', PInt (current_generation (tracker st) + 1)),
            (''snapshot_id'', PStr (timestamp (advanced_snapshot clk now cs (tracker st))))],
       (switch_phase ADVANCE st)\<lparr>tracker := tr3\<rparr>)"
    using fin r
    by (simp add: phase_advance_def Let_def it nts switch_phase_def start_next_generation_def
        split: prod.splits)
  show "fst (phase_advance clk now p st) =
           Inr [(''gen_id'', PInt (current_generation (tracker st) + 1)), (''snapshot_id'', PStr now)]"
    by (simp add: adv advanced_snapshot_fields)
  show "current_generation (tracker (snd (phase_advance clk now p st))) =
           current_generation (tracker st) + 1"
    by (simp add: adv tr3 log_changes_eq start_next_generation_def Let_def)
  show "history (tracker (snd (phase_advance clk now p st))) =
           history (tracker st) @ [advanced_snapshot clk now cs (tracker st)]"
    by (simp add: adv tr3 log_changes_eq start_next_generation_def Let_def)
  show "current_phase (snd (phase_advance clk now p st)) = ADVANCE"
    by (simp add: adv switch_phase_def)
qed

lemma run_full_cycle_abort:
  assumes t: "test_fn P context st = (Inr t, s1)"
      and f: "\<not> truthy (dict_get_default ''success'' (PBool False) t)"
  shows "run_full_cycle P clk now context st = (Inr [(''test'', PDict t)], s1)"
  using t f by (simp add: run_full_cycle_def Let_def)

lemma run_full_cycle_complete:
  assumes t: "test_fn P context st = (Inr t, s1)"
      and ok: "truthy (dict_get_default ''success'' (PBool False) t)"
      and a: "analyze_fn P t s1 = (Inr a, s2)"
      and p: "apply_fn P a context s2 = (Inr p, s3)"
      and adv: "phase_advance clk now p s3 = (Inr d, s4)"
      and v: "validate_fn P d s4 = (Inr v, s5)"
  shows "run_full_cycle P clk now context st =
           (Inr [(''test'', PDict t), (''analyze'', PDict a), (''apply'', PDict p),
                 (''advance'', PDict d), (''validate'', PDict v)], s5)"
  using t ok a p adv v by (simp add: run_full_cycle_def Let_def)

text \<open>
  \<^bold>\<open>Claim C4\<close>, as the code has it. When the Test phase returns a result whose
  \<open>success\<close> entry is \<open>False\<close>, \<^verbatim>\<open>run_full_cycle\<close> returns the mapping with the one key
  \<open>test\<close>, and the loop is left exactly as the Test phase left it: no later phase ran.
  The tracker's \<open>current_generation\<close> and \<open>history\<close> are therefore what the Test phase
  made of them; they are unchanged by the cycle provided the Test phase itself does not
  change them. The loop does not keep a Test phase from doing so.
\<close>

theorem failed_test_aborts:
  assumes t: "test_fn P context st = (Inr t, s1)"
      and f: "map_of t ''success'' = Some (PBool False)"
  shows "run_full_cycle P clk now context st = (Inr [(''test'', PDict t)], s1)
         \<and> current_generation (tracker (snd (run_full_cycle P clk now context st))) =
             current_generation (tracker s1)
         \<and> history (tracker (snd (run_full_cycle P clk now context st))) = history (tracker s1)
         \<and> (current_generation (tracker s1) = current_generation (tracker st) \<and>
              history (tracker s1) = history (tracker st) \<longrightarrow>
              current_generation (tracker (snd (run_full_cycle P clk now context st))) =
                current_generation (tracker st) \<and>
              history (tracker (snd (run_full_cycle P clk now context st))) =
                history (tracker st))"
proof -
  have "\<not> truthy (dict_get_default ''success'' (PBool False) t)"
    using f by (simp add: dict_get_default_def)
  with t have "run_full_cycle P clk now context st = (Inr [(''test'', PDict t)], s1)"
    by (rule run_full_cycle_abort)
  then show ?thesis by simp
qed

text \<open>A Test phase that reports failure and touches nothing, on a fresh loop: the
  cycle returns the \<open>test\<close> entry alone, the loop is unchanged, the counter is still
  \<open>0\<close>.\<close>

theorem failed_test_aborts_witness:
  "run_full_cycle
     ((default_phases 0 0)\<lparr>test_fn := fixed_result [(''success'', PBool False)]\<rparr>)
     (fixed_clock 0) ''t'' []
     (loop_init (tracker_init ''TestComponent'' None ()) (blueprint_manager_init ''blueprints'') ())
   = (Inr [(''test'', PDict [(''success'', PBool False)])],
      loop_init (tracker_init ''TestComponent'' None ()) (blueprint_manager_init ''blueprints'') ())
   \<and> current_generation (tracker (snd (run_full_cycle
     ((default_phases 0 0)\<lparr>test_fn := fixed_result [(''success'', PBool False)]\<rparr>)
     (fixed_clock 0) ''t'' []
     (loop_init (tracker_init ''TestComponent'' None ()) (blueprint_manager_init ''blueprints'') ()))))
     = 0"
proof -
  let ?P = "(default_phases 0 0)\<lparr>test_fn := fixed_result [(''success'', PBool False)]\<rparr>
              :: (unit, unit) phases"
  let ?L = "loop_init (tracker_init ''TestComponent'' None ()) (blueprint_manager_init ''blueprints'') ()"
  have t: "test_fn ?P [] ?L = (Inr [(''success'', PBool False)], ?L)"
    by (simp add: fixed_result_def)
  have f: "map_of [(''success'', PBool False)] ''success'' = Some (PBool False)"
    by simp
  show ?thesis
    using failed_test_aborts[OF t f, of "fixed_clock 0" "''t''"]
    by (simp add: loop_init_def tracker_init_def)
qed

text \<open>The claim as stated fails for a Test phase that starts a generation before it
  reports failure: the cycle returns the \<open>test\<close> entry alone, and has taken
  \<open>current_generation\<close> from \<open>0\<close> to \<open>1\<close>.\<close>

theorem restarting_test_changes_generation:
  "fst (run_full_cycle
     ((default_phases 0 0)\<lparr>test_fn := restarting_test [(''success'', PBool False)]\<rparr>)
     (fixed_clock 0) ''t'' []
     (loop_init (tracker_init ''TestComponent'' None ()) (blueprint_manager_init ''blueprints'') ()))
   = Inr [(''test'', PDict [(''success'', PBool False)])]
   \<and> current_generation (tracker
       (loop_init (tracker_init ''TestComponent'' None ()) (blueprint_manager_init ''blueprints'') ()))
     = 0
   \<and> current_generation (tracker (snd (run_full_cycle
     ((default_phases 0 0)\<lparr>test_fn := restarting_test [(''success'', PBool False)]\<rparr>)
     (fixed_clock 0) ''t'' []
     (loop_init (tracker_init ''TestComponent'' None ()) (blueprint_manager_init ''blueprints'') ()))))
     = 1"
  by (simp add: run_full_cycle_def restarting_test_def loop_init_def tracker_init_def
      start_next_generation_def dict_get_default_def Let_def)

lemma falsy_values:
  "\<not> truthy v \<longleftrightarrow> v \<in> {PNone, PBool False, PInt 0, PFloat 0, PStr [], PList [], PDict []}"
  by (cases v) auto

text \<open>
  \<^bold>\<open>Claim C9\<close>, as the code has it. The check is \<^verbatim>\<open>not results['test'].get('success', False)\<close>,
  which reads the entry by Python's truthiness. When the Test phase returns a result
  that has no \<open>success\<close> key, or whose \<open>success\<close> value is falsy (\<open>None\<close>, \<open>False\<close>,
  \<open>0\<close>, \<open>0.0\<close>, the empty string, the empty list or the empty dict),
  \<^verbatim>\<open>run_full_cycle\<close> does what it does on an explicit failure: it returns the mapping
  with the one key \<open>test\<close> and leaves the loop as the Test phase left it.
\<close>

theorem falsy_success_aborts:
  assumes t: "test_fn P context st = (Inr t, s1)"
      and f: "map_of t ''success'' = None \<or>
              (\<exists>v. map_of t ''success'' = Some v \<and>
                   v \<in> {PNone, PBool False, PInt 0, PFloat 0, PStr [], PList [], PDict []})"
  shows "run_full_cycle P clk now context st = (Inr [(''test'', PDict t)], s1)"
proof -
  have "\<not> truthy (dict_get_default ''success'' (PBool False) t)"
    using f by (cases "map_of t ''success''") (auto simp: dict_get_default_def)
  with t show ?thesis
    by (rule run_full_cycle_abort)
qed

text \<open>A Test phase whose result has no \<open>success\<close> key, and one whose \<open>success\<close> is
  the number \<open>0\<close>: the cycle aborts on both.\<close>

theorem falsy_success_aborts_witness:
  "map_of [(''coverage'', PInt 100)] ''success'' = None
   \<and> run_full_cycle
     ((default_phases 0 0)\<lparr>test_fn := fixed_result [(''coverage'', PInt 100)]\<rparr>)
     (fixed_clock 0) ''t'' []
     (loop_init (tracker_init ''TestComponent'' None ()) (blueprint_manager_init ''blueprints'') ())
   = (Inr [(''test'', PDict [(''coverage'', PInt 100)])],
      loop_init (tracker_init ''TestComponent'' None ()) (blueprint_manager_init ''blueprints'') ())
   \<and> map_of [(''success'', PInt 0), (''coverage'', PInt 100)] ''success'' = Some (PInt 0)
   \<and> run_full_cycle
     ((default_phases 0 0)\<lparr>test_fn := fixed_result [(''success'', PInt 0), (''coverage'', PInt 100)]\<rparr>)
     (fixed_clock 0) ''t'' []
     (loop_init (tracker_init ''TestComponent'' None ()) (blueprint_manager_init ''blueprints'') ())
   = (Inr [(''test'', PDict [(''success'', PInt 0), (''coverage'', PInt 100)])],
      loop_init (tracker_init ''TestComponent'' None ()) (blueprint_manager_init ''blueprints'') ())"
proof -
  let ?L = "loop_init (tracker_init ''TestComponent'' None ()) (blueprint_manager_init ''blueprints'') ()
              :: (unit, unit) GenerationalImprovementLoop"
  let ?P1 = "(default_phases 0 0)\<lparr>test_fn := fixed_result [(''coverage'', PInt 100)]\<rparr>
              :: (unit, unit) phases"
  let ?P2 = "(default_phases 0 0)\<lparr>test_fn :=
                fixed_result [(''success'', PInt 0), (''coverage'', PInt 100)]\<rparr>
              :: (unit, unit) phases"
  have t1: "test_fn ?P1 [] ?L = (Inr [(''coverage'', PInt 100)], ?L)"
    by (simp add: fixed_result_def)
  have f1: "map_of [(''coverage'', PInt 100)] ''success'' = None \<or>
      (\<exists>v. map_of [(''coverage'', PInt 100)] ''success'' = Some v \<and>
           v \<in> {PNone, PBool False, PInt 0, PFloat 0, PStr [], PList [], PDict []})"
    by simp
  have t2: "test_fn ?P2 [] ?L = (Inr [(''success'', PInt 0), (''coverage'', PInt 100)], ?L)"
    by (simp add: fixed_result_def)
  have f2: "map_of [(''success'', PInt 0), (''coverage'', PInt 100)] ''success'' = None \<or>
      (\<exists>v. map_of [(''success'', PInt 0), (''coverage'', PInt 100)] ''success'' = Some v \<and>
           v \<in> {PNone, PBool False, PInt 0, PFloat 0, PStr [], PList [], PDict []})"
    by simp
  show ?thesis
    using falsy_success_aborts[OF t1 f1, of "fixed_clock 0" "''t''"]
          falsy_success_aborts[OF t2 f2, of "fixed_clock 0" "''t''"]
    by simp
qed

text \<open>The claim as stated fails for a value that is not \<open>True\<close> but truthy: with the
  string \<open>"no"\<close> under \<open>success\<close> (and a coverage the Analyze phase can compare), the
  cycle runs all five phases.\<close>

theorem truthy_string_success_continues:
  "fst (run_full_cycle
     ((default_phases 0 0)\<lparr>test_fn := fixed_result [(''success'', PStr ''no''), (''coverage'', PInt 100)]\<rparr>)
     (fixed_clock 0) ''t'' []
     (loop_init (tracker_init ''TestComponent'' None ()) (blueprint_manager_init ''blueprints'') ()))
   = Inr [(''test'', PDict [(''success'', PStr ''no''), (''coverage'', PInt 100)]),
          (''analyze'', PDict [(''recommendations'', PList []), (''priority'', PStr ''HIGH'')]),
          (''apply'', PDict [(''changes'', PList [PStr ''Ran optimizer'']),
                             (''diff_summary'', PStr ''+5 lines, -2 lines'')]),
          (''advance'', PDict [(''gen_id'', PInt 1), (''snapshot_id'', PStr ''t'')]),
          (''validate'', PDict [(''validated'', PBool True), (''score'', PInt 100)])]"
  by (simp add: run_full_cycle_def default_phases_def fixed_result_def phase_analyze_def
      phase_apply_def phase_advance_def phase_validate_def switch_phase_def loop_init_def
      tracker_init_def dict_get_def dict_get_default_def start_next_generation_def
      log_metric_def finalize_generation_def Let_def)

text \<open>
  \<^bold>\<open>Claim C3\<close>, as the code has it. Let the Test phase return a result with
  \<open>success = True\<close>, let the Analyze, Apply and Validate phases and the persistence
  callback (when there is one) return normally, let the Apply result carry its
  \<open>changes\<close> as a list, and let no phase but ADVANCE alter the tracker's
  \<open>current_generation\<close> or \<open>history\<close>. Then \<^verbatim>\<open>run_full_cycle\<close> runs the five phases in
  the order TEST, ANALYZE, APPLY, ADVANCE, VALIDATE, each on the loop as the phase
  before left it, and returns their five results under the keys in that order.
  Afterwards \<open>current_generation\<close> has increased by exactly \<open>1\<close>, and the history has
  exactly one new entry: its \<open>changelog\<close> is the list of changes the Apply phase
  reported, and its metrics are, per change and in order, one metric named
  \<open>applied_change\<close> with value \<open>1\<close> and the change under the tag \<open>desc\<close>.
\<close>

theorem successful_cycle:
  assumes t: "test_fn P context st = (Inr t, s1)"
      and ok: "map_of t ''success'' = Some (PBool True)"
      and a: "analyze_fn P t s1 = (Inr a, s2)"
      and p: "apply_fn P a context s2 = (Inr p, s3)"
      and ch: "map_of p ''changes'' = Some (PList cs)"
      and cb: "callback_accepts (tracker s3) (advanced_snapshot clk now cs (tracker s3))"
      and v: "validate_fn P [(''gen_id'', PInt (current_generation (tracker s3) + 1)),
                             (''snapshot_id'', PStr now)]
                (snd (phase_advance clk now p s3)) = (Inr v, s5)"
      and before: "current_generation (tracker s3) = current_generation (tracker st)"
                  "history (tracker s3) = history (tracker st)"
      and after: "current_generation (tracker s5) =
                    current_generation (tracker (snd (phase_advance clk now p s3)))"
                 "history (tracker s5) = history (tracker (snd (phase_advance clk now p s3)))"
  shows "run_full_cycle P clk now context st =
           (Inr [(''test'', PDict t), (''analyze'', PDict a), (''apply'', PDict p),
                 (''advance'', PDict [(''gen_id'', PInt (current_generation (tracker s3) + 1)),
                                      (''snapshot_id'', PStr now)]),
                 (''validate'', PDict v)], s5)
         \<and> current_generation (tracker s5) = current_generation (tracker st) + 1
         \<and> history (tracker s5) =
             history (tracker st) @ [advanced_snapshot clk now cs (tracker s3)]
         \<and> changelog (advanced_snapshot clk now cs (tracker s3)) = PList cs
         \<and> metrics (advanced_snapshot clk now cs (tracker s3)) =
             map (\<lambda>(j, change).
                    \<lparr>metric_name = ''applied_change'', metric_value = PInt 1,
                     metric_timestamp = clk j, metric_tags = [(''desc'', change)]\<rparr>)
                 (enumerate 0 cs)"
proof -
  let ?d = "[(''gen_id'', PInt (current_generation (tracker s3) + 1)), (''snapshot_id'', PStr now)]"
  have truthy: "truthy (dict_get_default ''success'' (PBool False) t)"
    using ok by (simp add: dict_get_default_def)
  have adv: "phase_advance clk now p s3 = (Inr ?d, snd (phase_advance clk now p s3))"
    using phase_advance_list(1)[OF ch cb] by (simp add: prod_eq_iff)
  have run: "run_full_cycle P clk now context st =
           (Inr [(''test'', PDict t), (''analyze'', PDict a), (''apply'', PDict p),
                 (''advance'', PDict ?d), (''validate'', PDict v)], s5)"
    using t truthy a p adv v by (rule run_full_cycle_complete)
  have gen: "current_generation (tracker s5) = current_generation (tracker st) + 1"
    using after(1) before(1) phase_advance_list(2)[OF ch cb] by simp
  have hist: "history (tracker s5) =
      history (tracker st) @ [advanced_snapshot clk now cs (tracker s3)]"
    using after(2) before(2) phase_advance_list(3)[OF ch cb] by simp
  show ?thesis
    using run gen hist
    by (simp add: advanced_snapshot_fields applied_change_metrics_def)
qed

text \<open>The class's own phases on a fresh loop, as in the module's self-test: all
  hypotheses hold, the counter ends at \<open>1\<close>, and the one history entry has the changelog
  and the metric of the one change \<open>Ran optimizer\<close>.\<close>

theorem successful_cycle_witness:
  "fst (run_full_cycle (default_phases 0 0) (fixed_clock 0) ''t'' [(''target'', PStr ''core_module'')]
     (loop_init (tracker_init ''DemoComponent'' None ()) (blueprint_manager_init ''blueprints'') ()))
   = Inr [(''test'', PDict [(''success'', PBool True), (''coverage'', PFloat (22 / 25)),
                             (''failures'', PList [])]),
           (''analyze'', PDict [(''recommendations'', PList [PStr ''optimize_query_speed'']),
                                (''priority'', PStr ''HIGH'')]),
           (''apply'', PDict [(''changes'', PList [PStr ''Ran optimizer'']),
                              (''diff_summary'', PStr ''+5 lines, -2 lines'')]),
           (''advance'', PDict [(''gen_id'', PInt 1), (''snapshot_id'', PStr ''t'')]),
           (''validate'', PDict [(''validated'', PBool True), (''score'', PInt 100)])]
   \<and> current_phase (snd (run_full_cycle (default_phases 0 0) (fixed_clock 0) ''t''
        [(''target'', PStr ''core_module'')]
        (loop_init (tracker_init ''DemoComponent'' None ()) (blueprint_manager_init ''blueprints'') ())))
      = VALIDATE
   \<and> current_generation (tracker (snd (run_full_cycle (default_phases 0 0) (fixed_clock 0) ''t''
        [(''target'', PStr ''core_module'')]
        (loop_init (tracker_init ''DemoComponent'' None ()) (blueprint_manager_init ''blueprints'') ()))))
      = 1
   \<and> map changelog (history (tracker (snd (run_full_cycle (default_phases 0 0) (fixed_clock 0) ''t''
        [(''target'', PStr ''core_module'')]
        (loop_init (tracker_init ''DemoComponent'' None ()) (blueprint_manager_init ''blueprints'') ())))))
      = [PList [PStr ''Ran optimizer'']]
   \<and> map metrics (history (tracker (snd (run_full_cycle (default_phases 0 0) (fixed_clock 0) ''t''
        [(''target'', PStr ''core_module'')]
        (loop_init (tracker_init ''DemoComponent'' None ()) (blueprint_manager_init ''blueprints'') ())))))
      = [[\<lparr>metric_name = ''applied_change'', metric_value = PInt 1, metric_timestamp = 0,
           metric_tags = [(''desc'', PStr ''Ran optimizer'')]\<rparr>]]"
proof -
  let ?P = "default_phases 0 0 :: (unit, unit) phases"
  let ?ctx = "[(''target'', PStr ''core_module'')]"
  let ?L = "loop_init (tracker_init ''DemoComponent'' None ()) (blueprint_manager_init ''blueprints'') ()"
  let ?t = "[(''success'', PBool True), (''coverage'', PFloat (22 / 25)), (''failures'', PList [])]"
  let ?a = "[(''recommendations'', PList [PStr ''optimize_query_speed'']), (''priority'', PStr ''HIGH'')]"
  let ?p = "[(''changes'', PList [PStr ''Ran optimizer'']), (''diff_summary'', PStr ''+5 lines, -2 lines'')]"
  let ?v = "[(''validated'', PBool True), (''score'', PInt 100)]"
  let ?s1 = "snd (phase_test 0 ?ctx ?L)"
  let ?s2 = "snd (phase_analyze ?t ?s1)"
  let ?s3 = "snd (phase_apply ?a ?ctx ?s2)"
  let ?d = "[(''gen_id'', PInt (current_generation (tracker ?s3) + 1)), (''snapshot_id'', PStr ''t'')]"
  let ?s4 = "snd (phase_advance (fixed_clock 0) ''t'' ?p ?s3)"
  let ?s5 = "snd (phase_validate 0 ?d ?s4)"
  have t: "test_fn ?P ?ctx ?L = (Inr ?t, ?s1)"
    by (simp add: default_phases_def phase_test_def Let_def)
  have ok: "map_of ?t ''success'' = Some (PBool True)"
    by simp
  have a: "analyze_fn ?P ?t ?s1 = (Inr ?a, ?s2)"
    by (simp add: default_phases_def phase_analyze_def dict_get_def Let_def)
  have p: "apply_fn ?P ?a ?ctx ?s2 = (Inr ?p, ?s3)"
    by (simp add: default_phases_def phase_apply_def Let_def)
  have ch: "map_of ?p ''changes'' = Some (PList [PStr ''Ran optimizer''])"
    by simp
  have s3: "tracker ?s3 = log_metric ''phase_test_duration_ms'' (PInt 120) None 0
                (tracker_init ''DemoComponent'' None ())"
    by (simp add: phase_test_def phase_analyze_def phase_apply_def switch_phase_def
        loop_init_def dict_get_def Let_def)
  have cb: "callback_accepts (tracker ?s3)
              (advanced_snapshot (fixed_clock 0) ''t'' [PStr ''Ran optimizer''] (tracker ?s3))"
    unfolding s3 by (simp add: callback_accepts_def log_metric_def tracker_init_def Let_def)
  have v: "validate_fn ?P ?d ?s4 = (Inr ?v, ?s5)"
    by (simp add: default_phases_def phase_validate_def Let_def)
  have before: "current_generation (tracker ?s3) = current_generation (tracker ?L)"
               "history (tracker ?s3) = history (tracker ?L)"
    unfolding s3 by (simp_all add: log_metric_def loop_init_def Let_def)
  have after: "current_generation (tracker ?s5) = current_generation (tracker ?s4)"
              "history (tracker ?s5) = history (tracker ?s4)"
    by (simp_all add: phase_validate_def switch_phase_def log_metric_def Let_def)
  have gen0: "current_generation (tracker ?L) = 0" and hist0: "history (tracker ?L) = []"
    by (simp_all add: loop_init_def tracker_init_def)
  note main = successful_cycle[OF t ok a p ch cb v before after]
  have run: "run_full_cycle ?P (fixed_clock 0) ''t'' ?ctx ?L =
      (Inr [(''test'', PDict ?t), (''analyze'', PDict ?a), (''apply'', PDict ?p),
            (''advance'', PDict [(''gen_id'', PInt 1), (''snapshot_id'', PStr ''t'')]),
            (''validate'', PDict ?v)], ?s5)"
    using main before(1) gen0 by simp
  have gen: "current_generation (tracker ?s5) = 1"
    using main gen0 by simp
  have hist: "history (tracker ?s5) =
      [advanced_snapshot (fixed_clock 0) ''t'' [PStr ''Ran optimizer''] (tracker ?s3)]"
    using main hist0 by simp
  have cl: "changelog (advanced_snapshot (fixed_clock 0) ''t'' [PStr ''Ran optimizer''] (tracker ?s3))
      = PList [PStr ''Ran optimizer'']"
    using main by simp
  have ms: "metrics (advanced_snapshot (fixed_clock 0) ''t'' [PStr ''Ran optimizer''] (tracker ?s3))
      = [\<lparr>metric_name = ''applied_change'', metric_value = PInt 1, metric_timestamp = 0,
           metric_tags = [(''desc'', PStr ''Ran optimizer'')]\<rparr>]"
    using main by (simp add: enumerate_eq_zip fixed_clock_def)
  have ph: "current_phase ?s5 = VALIDATE"
    by (simp add: phase_validate_def switch_phase_def Let_def)
  show ?thesis
    by (simp only: run fst_conv snd_conv ph gen hist cl ms list.map simp_thms)
qed

text \<open>The claim as stated fails for a Test result that has \<open>success = True\<close> and
  nothing else: the class's own Analyze phase compares the missing coverage, \<open>None\<close>,
  with \<open>0.9\<close> and raises \<^verbatim>\<open>TypeError\<close>. The cycle ends there, in phase ANALYZE, and
  the tracker has neither advanced nor sealed anything.\<close>

theorem success_without_coverage_raises:
  "run_full_cycle
     ((default_phases 0 0)\<lparr>test_fn := fixed_result [(''success'', PBool True)]\<rparr>)
     (fixed_clock 0) ''t'' []
     (loop_init (tracker_init ''TestComponent'' None ()) (blueprint_manager_init ''blueprints'') ())
   = (Inl TypeError,
      (loop_init (tracker_init ''TestComponent'' None ()) (blueprint_manager_init ''blueprints'') ())
        \<lparr>current_phase := ANALYZE\<rparr>)
   \<and> current_generation (tracker (snd (run_full_cycle
     ((default_phases 0 0)\<lparr>test_fn := fixed_result [(''success'', PBool True)]\<rparr>)
     (fixed_clock 0) ''t'' []
     (loop_init (tracker_init ''TestComponent'' None ()) (blueprint_manager_init ''blueprints'') ()))))
     = 0
   \<and> history (tracker (snd (run_full_cycle
     ((default_phases 0 0)\<lparr>test_fn := fixed_result [(''success'', PBool True)]\<rparr>)
     (fixed_clock 0) ''t'' []
     (loop_init (tracker_init ''TestComponent'' None ()) (blueprint_manager_init ''blueprints'') ()))))
     = []"
  by (simp add: run_full_cycle_def default_phases_def fixed_result_def phase_analyze_def
      switch_phase_def loop_init_def tracker_init_def dict_get_def dict_get_default_def Let_def)

end
